theory Spec2Isabelle
  imports Complex_Main "HOL-Library.Sublist"
begin

section \<open>JavaScript values\<close>

text \<open>
  The front end receives parsed JSON from the prediction backend and reads it with
  property access, optional chaining and the operators \<^verbatim>\<open>||\<close>, \<^verbatim>\<open>===\<close>, \<^verbatim>\<open>>\<close>,
  \<^verbatim>\<open>+\<close>. Values are modelled as the language has them. Numbers are exact rationals
  together with \<open>NaN\<close> and the two infinities: the rounding error of IEEE doubles is
  not modelled. An object is the list of its own properties, in order.
\<close>

datatype jsnum = Fin rat | NaN | PosInf | NegInf

datatype jsval =
    JUndefined
  | JNull
  | JBool bool
  | JNum jsnum
  | JStr string
  | JArr "jsval list"
  | JObj "(string \<times> jsval) list"

text \<open>
  What a \<^verbatim>\<open>throw\<close> carries: \<^verbatim>\<open>new Error(message)\<close>, the \<^verbatim>\<open>TypeError\<close> of a property
  read on \<^verbatim>\<open>undefined\<close> or \<^verbatim>\<open>null\<close>, or the HTTP library's own rejection, which holds
  the response (status and body) when the server answered, whether the request was
  sent, and a message.
\<close>

datatype thrown =
    Error string
  | TypeError string
  | AxiosError "(nat \<times> jsval) option" bool string

definition bind :: "thrown + 'a \<Rightarrow> ('a \<Rightarrow> thrown + 'b) \<Rightarrow> thrown + 'b" where
  "bind m f = (case m of Inl e \<Rightarrow> Inl e | Inr x \<Rightarrow> f x)"

fun truthy :: "jsval \<Rightarrow> bool" where
  "truthy JUndefined = False"
| "truthy JNull = False"
| "truthy (JBool b) = b"
| "truthy (JNum (Fin q)) = (q \<noteq> 0)"
| "truthy (JNum NaN) = False"
| "truthy (JNum PosInf) = True"
| "truthy (JNum NegInf) = True"
| "truthy (JStr s) = (s \<noteq> [])"
| "truthy (JArr xs) = True"
| "truthy (JObj kvs) = True"

text \<open>\<^verbatim>\<open>a || b\<close>: the left operand when it is truthy, else the right one.\<close>

definition js_or :: "jsval \<Rightarrow> jsval \<Rightarrow> jsval" where
  "js_or a b = (if truthy a then a else b)"

definition nullish :: "jsval \<Rightarrow> bool" where
  "nullish v = (v = JUndefined \<or> v = JNull)"

text \<open>
  \<^verbatim>\<open>v?.k\<close> for a property name \<open>k\<close>: \<^verbatim>\<open>undefined\<close> on a nullish receiver, the own
  property of an object, the length of an array or a string, and \<^verbatim>\<open>undefined\<close> for
  every other name (the names the program reads are no prototype properties).
\<close>

fun get_opt :: "jsval \<Rightarrow> string \<Rightarrow> jsval" where
  "get_opt (JObj kvs) k = (case map_of kvs k of Some v \<Rightarrow> v | None \<Rightarrow> JUndefined)"
| "get_opt (JArr xs) k =
     (if k = ''length'' then JNum (Fin (of_nat (length xs))) else JUndefined)"
| "get_opt (JStr s) k =
     (if k = ''length'' then JNum (Fin (of_nat (length s))) else JUndefined)"
| "get_opt v k = JUndefined"

text \<open>\<^verbatim>\<open>v.k\<close>: as \<^verbatim>\<open>v?.k\<close>, but a nullish receiver throws.\<close>

definition get :: "jsval \<Rightarrow> string \<Rightarrow> thrown + jsval" where
  "get v k =
     (if nullish v then Inl (TypeError ''Cannot read properties of undefined or null'')
      else Inr (get_opt v k))"

section \<open>The normalisation of a raw prediction (api.js)\<close>

text \<open>
  \<^verbatim>\<open>formatFloodPrediction(prediction)\<close>. The clock is a parameter: \<open>now\<close> is what
  \<^verbatim>\<open>new Date().toISOString()\<close> returns at the call.
\<close>

definition formatFloodPrediction :: "string \<Rightarrow> jsval \<Rightarrow> thrown + jsval" where
  "formatFloodPrediction now prediction =
     (if \<not> truthy prediction then Inr JNull
      else
        bind (get prediction ''random_forest'') (\<lambda>rf.
        let randomForest = js_or rf (JObj []) in
        bind (get prediction ''combined_assessment'') (\<lambda>ca.
        let combinedAssessment = js_or ca (JObj []) in
        bind (get prediction ''bayesian_probability'') (\<lambda>bp.
        let bayesianProbability = js_or bp (JNum (Fin 0)) in
        bind (get prediction ''ward_risk_zone'') (\<lambda>rz.
        let wardRiskZone = js_or rz (JStr ''Unknown'') in
        bind (get prediction ''ward_code'') (\<lambda>wardCode.
        bind (get prediction ''ward_name'') (\<lambda>wardName.
        bind (get randomForest ''flood_risk_level'') (\<lambda>level.
        bind (get randomForest ''will_flood'') (\<lambda>willFlood.
        bind (get randomForest ''risk_probabilities'') (\<lambda>probs.
        bind (get combinedAssessment ''high_risk'') (\<lambda>highRisk.
        let confidence = get_opt combinedAssessment ''confidence'' in
        bind (get prediction ''timestamp'') (\<lambda>ts.
        bind (get prediction ''weather_data'') (\<lambda>weather.
        Inr (JObj
          [(''wardCode'', wardCode),
           (''wardName'', wardName),
           (''riskZone'', wardRiskZone),
           (''riskLevel'', js_or level (JNum (Fin 0))),
           (''willFlood'', js_or willFlood (JBool False)),
           (''riskProbabilities'', js_or probs (JObj [])),
           (''bayesianProbability'', bayesianProbability),
           (''highRisk'', js_or highRisk (JBool False)),
           (''confidence'', js_or confidence (JStr ''Medium'')),
           (''timestamp'', js_or ts (JStr now)),
           (''weatherData'', js_or weather (JObj []))]))))))))))))))"

text \<open>
  The fields of the canonical record that the normaliser defaults: the tree-ensemble
  level, the flood probability, the confidence, the flood flag, the risk zone, the
  per-class probabilities, the combined flag, the time stamp and the weather inputs.
\<close>

definition defaulted_fields :: "string list" where
  "defaulted_fields =
     [''riskZone'', ''riskLevel'', ''willFlood'', ''riskProbabilities'',
      ''bayesianProbability'', ''highRisk'', ''confidence'', ''timestamp'',
      ''weatherData'']"

definition fully_populated :: "jsval \<Rightarrow> bool" where
  "fully_populated r = list_all (\<lambda>k. \<not> nullish (get_opt r k)) defaulted_fields"

section \<open>Numbers, strings and the conversions of the language\<close>

text \<open>Decimal digits of a natural number, as \<^verbatim>\<open>String(n)\<close> prints them.\<close>

fun show_nat :: "nat \<Rightarrow> string" where
  "show_nat n =
     (if n < 10 then [char_of (48 + n)]
      else show_nat (n div 10) @ [char_of (48 + n mod 10)])"

definition is_integer :: "rat \<Rightarrow> bool" where
  "is_integer q = (of_int \<lfloor>q\<rfloor> = q)"

text \<open>
  The conversions between numbers and strings that the language defines and this
  development does not interpret are parameters: how a finite number that is no integer
  below \<open>10\<^sup>2\<^sup>1\<close> prints, how a string is read as a number (\<^verbatim>\<open>Number(s)\<close>), and
  \<^verbatim>\<open>parseFloat\<close>. Every theorem below holds for all of them.
\<close>

record js_ops =
  NumberToString :: "rat \<Rightarrow> string"
  StringToNumber :: "string \<Rightarrow> jsnum"
  parseFloat_of :: "string \<Rightarrow> jsnum"

fun join :: "string \<Rightarrow> string list \<Rightarrow> string" where
  "join sep [] = []"
| "join sep [x] = x"
| "join sep (x # y # ys) = x @ sep @ join sep (y # ys)"

text \<open>\<^verbatim>\<open>String(v)\<close>, also what a template literal and a property key make of a value.\<close>

fun to_str :: "js_ops \<Rightarrow> jsval \<Rightarrow> string" where
  "to_str ops JUndefined = ''undefined''"
| "to_str ops JNull = ''null''"
| "to_str ops (JBool b) = (if b then ''true'' else ''false'')"
| "to_str ops (JNum NaN) = ''NaN''"
| "to_str ops (JNum PosInf) = ''Infinity''"
| "to_str ops (JNum NegInf) = ''-Infinity''"
| "to_str ops (JNum (Fin q)) =
     (if is_integer q \<and> \<bar>q\<bar> < 10 ^ 21
      then (if q < 0 then ''-'' else []) @ show_nat (nat \<lfloor>\<bar>q\<bar>\<rfloor>)
      else NumberToString ops q)"
| "to_str ops (JStr s) = s"
| "to_str ops (JArr xs) =
     join '','' (map (\<lambda>x. if x = JUndefined \<or> x = JNull then [] else to_str ops x) xs)"
| "to_str ops (JObj kvs) = ''[object Object]''"

text \<open>\<^verbatim>\<open>Number(v)\<close>: an array or an object is first turned into its string.\<close>

fun ToNumber :: "js_ops \<Rightarrow> jsval \<Rightarrow> jsnum" where
  "ToNumber ops JUndefined = NaN"
| "ToNumber ops JNull = Fin 0"
| "ToNumber ops (JBool b) = Fin (if b then 1 else 0)"
| "ToNumber ops (JNum n) = n"
| "ToNumber ops (JStr s) = StringToNumber ops s"
| "ToNumber ops (JArr xs) = StringToNumber ops (to_str ops (JArr xs))"
| "ToNumber ops (JObj kvs) = StringToNumber ops (to_str ops (JObj kvs))"

fun num_add :: "jsnum \<Rightarrow> jsnum \<Rightarrow> jsnum" where
  "num_add (Fin a) (Fin b) = Fin (a + b)"
| "num_add NaN y = NaN"
| "num_add x NaN = NaN"
| "num_add PosInf NegInf = NaN"
| "num_add NegInf PosInf = NaN"
| "num_add PosInf y = PosInf"
| "num_add NegInf y = NegInf"
| "num_add x PosInf = PosInf"
| "num_add x NegInf = NegInf"

text \<open>The sign of a number that is not \<open>NaN\<close>, and an infinity of a given sign.\<close>

fun num_sgn :: "jsnum \<Rightarrow> rat" where
  "num_sgn (Fin q) = sgn q"
| "num_sgn PosInf = 1"
| "num_sgn NegInf = - 1"
| "num_sgn NaN = 0"

definition signed_inf :: "rat \<Rightarrow> jsnum" where
  "signed_inf s = (if s = 0 then NaN else if 0 < s then PosInf else NegInf)"

fun num_mul :: "jsnum \<Rightarrow> jsnum \<Rightarrow> jsnum" where
  "num_mul (Fin a) (Fin b) = Fin (a * b)"
| "num_mul NaN y = NaN"
| "num_mul x NaN = NaN"
| "num_mul x y = signed_inf (num_sgn x * num_sgn y)"

text \<open>
  Division. A zero divisor gives \<open>NaN\<close> for a zero dividend and an infinity otherwise
  (the sign of a negative zero is not modelled).
\<close>

fun num_div :: "jsnum \<Rightarrow> jsnum \<Rightarrow> jsnum" where
  "num_div (Fin a) (Fin b) = (if b = 0 then signed_inf (sgn a) else Fin (a / b))"
| "num_div NaN y = NaN"
| "num_div x NaN = NaN"
| "num_div (Fin a) y = Fin 0"
| "num_div x (Fin b) = signed_inf (num_sgn x * (if b < 0 then - 1 else 1))"
| "num_div x y = NaN"

text \<open>\<^verbatim>\<open>x >= c\<close> and \<^verbatim>\<open>x > c\<close> against a finite constant: false on \<open>NaN\<close>.\<close>

fun num_ge :: "jsnum \<Rightarrow> rat \<Rightarrow> bool" where
  "num_ge (Fin q) c = (c \<le> q)"
| "num_ge NaN c = False"
| "num_ge PosInf c = True"
| "num_ge NegInf c = False"

fun num_gt :: "jsnum \<Rightarrow> rat \<Rightarrow> bool" where
  "num_gt (Fin q) c = (c < q)"
| "num_gt NaN c = False"
| "num_gt PosInf c = True"
| "num_gt NegInf c = False"

definition js_ge :: "js_ops \<Rightarrow> jsval \<Rightarrow> rat \<Rightarrow> bool" where
  "js_ge ops v c = num_ge (ToNumber ops v) c"

definition js_gt :: "js_ops \<Rightarrow> jsval \<Rightarrow> rat \<Rightarrow> bool" where
  "js_gt ops v c = num_gt (ToNumber ops v) c"

text \<open>
  \<^verbatim>\<open>a + b\<close>: concatenation of the strings as soon as one operand is a string, an array
  or an object, the sum of the numbers otherwise.
\<close>

fun stringy :: "jsval \<Rightarrow> bool" where
  "stringy (JStr s) = True"
| "stringy (JArr xs) = True"
| "stringy (JObj kvs) = True"
| "stringy v = False"

definition js_add :: "js_ops \<Rightarrow> jsval \<Rightarrow> jsval \<Rightarrow> jsval" where
  "js_add ops a b =
     (if stringy a \<or> stringy b then JStr (to_str ops a @ to_str ops b)
      else JNum (num_add (ToNumber ops a) (ToNumber ops b)))"

definition js_mul :: "js_ops \<Rightarrow> jsval \<Rightarrow> jsval \<Rightarrow> jsnum" where
  "js_mul ops a b = num_mul (ToNumber ops a) (ToNumber ops b)"

definition js_div :: "js_ops \<Rightarrow> jsval \<Rightarrow> jsval \<Rightarrow> jsnum" where
  "js_div ops a b = num_div (ToNumber ops a) (ToNumber ops b)"

text \<open>
  \<^verbatim>\<open>x.toFixed(d)\<close>: the nearest multiple of \<open>10\<^sup>-\<^sup>d\<close>, the larger one on a tie, printed
  with exactly \<open>d\<close> fractional digits; from \<open>10\<^sup>2\<^sup>1\<close> on, the number's plain string.
\<close>

definition toFixed :: "js_ops \<Rightarrow> nat \<Rightarrow> jsnum \<Rightarrow> string" where
  "toFixed ops d x =
     (case x of
        NaN \<Rightarrow> ''NaN''
      | PosInf \<Rightarrow> ''Infinity''
      | NegInf \<Rightarrow> ''-Infinity''
      | Fin q \<Rightarrow>
          if 10 ^ 21 \<le> \<bar>q\<bar> then to_str ops (JNum (Fin q))
          else
            let n = nat \<lfloor>\<bar>q\<bar> * 10 ^ d + 1 / 2\<rfloor>;
                digits = show_nat n;
                m = replicate (d + 1 - length digits) (CHR ''0'') @ digits;
                k = length m
            in (if q < 0 then ''-'' else [])
               @ (if d = 0 then m else take (k - d) m @ ''.'' @ drop (k - d) m))"

section \<open>Risk levels and colours (api.js)\<close>

text \<open>\<^verbatim>\<open>getRiskLevel(probability)\<close>.\<close>

definition getRiskLevel :: "js_ops \<Rightarrow> jsval \<Rightarrow> string" where
  "getRiskLevel ops probability =
     (if js_ge ops probability (7 / 10) then ''Critical''
      else if js_ge ops probability (3 / 10) then ''High''
      else if js_ge ops probability (1 / 10) then ''Medium''
      else ''Low'')"

text \<open>
  \<^verbatim>\<open>s.toLowerCase()\<close> on the letters A to Z (codes 65 to 90); no other character
  lowers to a letter that occurs in the name of a risk level.
\<close>

definition to_lower :: "string \<Rightarrow> string" where
  "to_lower s =
     map (\<lambda>c. if (65::nat) \<le> of_char c \<and> of_char c \<le> (90::nat)
              then char_of (of_char c + (32::nat)) else c) s"

text \<open>
  \<^verbatim>\<open>riskLevel?.toLowerCase()\<close> inside a \<^verbatim>\<open>switch\<close>: a nullish level takes the default
  branch, a string is lowered, and any other value has no such method, so the call
  throws.
\<close>

definition lowered :: "jsval \<Rightarrow> thrown + string option" where
  "lowered riskLevel =
     (if nullish riskLevel then Inr None
      else case riskLevel of
             JStr s \<Rightarrow> Inr (Some (to_lower s))
           | _ \<Rightarrow> Inl (TypeError ''riskLevel.toLowerCase is not a function''))"

text \<open>\<^verbatim>\<open>getRiskColor(riskLevel)\<close> of api.js.\<close>

definition getRiskColor :: "jsval \<Rightarrow> thrown + string" where
  "getRiskColor riskLevel =
     bind (lowered riskLevel) (\<lambda>l.
       Inr (if l = Some ''critical'' then ''#FF0000''
            else if l = Some ''high'' then ''#FF6600''
            else if l = Some ''medium'' then ''#FFFF00''
            else if l = Some ''low'' then ''#00FF00''
            else ''#CCCCCC''))"

section \<open>The HTTP client and the API functions (api.js)\<close>

record request =
  http_method :: string
  url :: string
  body :: jsval

text \<open>
  What the network does with a request: the server answers with a status and a body, no
  answer arrives (time-out, refused connection), or the request could not be sent. The
  HTTP library resolves with the body on a status from 200 to 299 and rejects with its
  own error otherwise.
\<close>

datatype http_outcome = Responded nat jsval | NoResponse string | NotSent string

type_synonym server = "request \<Rightarrow> http_outcome"

definition axios_result :: "http_outcome \<Rightarrow> thrown + jsval" where
  "axios_result out =
     (case out of
        Responded status data \<Rightarrow>
          if 200 \<le> status \<and> status < 300 then Inr data
          else Inl (AxiosError (Some (status, data)) True
                      (''Request failed with status code '' @ show_nat status))
      | NoResponse m \<Rightarrow> Inl (AxiosError None True m)
      | NotSent m \<Rightarrow> Inl (AxiosError None False m))"

text \<open>\<^verbatim>\<open>error.response\<close>, \<^verbatim>\<open>error.request\<close> and \<^verbatim>\<open>error.message\<close> of a caught value.\<close>

fun response_of :: "thrown \<Rightarrow> (nat \<times> jsval) option" where
  "response_of (AxiosError r sent m) = r"
| "response_of e = None"

fun request_of :: "thrown \<Rightarrow> bool" where
  "request_of (AxiosError r sent m) = sent"
| "request_of e = False"

fun message_of :: "thrown \<Rightarrow> string" where
  "message_of (Error m) = m"
| "message_of (TypeError m) = m"
| "message_of (AxiosError r sent m) = m"

text \<open>\<^verbatim>\<open>error.response?.status === n\<close>.\<close>

definition status_is :: "thrown \<Rightarrow> nat \<Rightarrow> bool" where
  "status_is e n = (case response_of e of Some (status, data) \<Rightarrow> status = n | None \<Rightarrow> False)"

text \<open>
  \<^verbatim>\<open>encodeURIComponent(s)\<close> on the bytes of the string: letters, digits and the marks
  \<^verbatim>\<open>- _ . ! ~ * ' ( )\<close> stay, every other byte becomes \<^verbatim>\<open>%XX\<close>.
\<close>

definition hex_digit :: "nat \<Rightarrow> char" where
  "hex_digit n = (if n < 10 then char_of (48 + n) else char_of (55 + n))"

definition unreserved :: "char \<Rightarrow> bool" where
  "unreserved c =
     (let n = (of_char c :: nat) in
      (65 \<le> n \<and> n \<le> 90) \<or> (97 \<le> n \<and> n \<le> 122) \<or> (48 \<le> n \<and> n \<le> 57)
      \<or> n \<in> {45, 95, 46, 33, 126, 42, 39, 40, 41})"

definition encodeURIComponent :: "string \<Rightarrow> string" where
  "encodeURIComponent s =
     concat (map (\<lambda>c. if unreserved c then [c]
                      else [CHR ''%'', hex_digit ((of_char c :: nat) div 16),
                            hex_digit ((of_char c :: nat) mod 16)]) s)"

text \<open>
  Every API function returns the requests it handed to the HTTP client, in order, and
  its result: the value it resolves with, or what it throws.
\<close>

definition validation_message :: string where
  "validation_message = ''Rainfall data must be an array of exactly 15 values''"

text \<open>\<^verbatim>\<open>!Array.isArray(rainfallData) || rainfallData.length !== 15\<close>.\<close>

definition bad_series :: "jsval \<Rightarrow> bool" where
  "bad_series rainfallData =
     (case rainfallData of JArr xs \<Rightarrow> length xs \<noteq> 15 | _ \<Rightarrow> True)"

text \<open>The \<^verbatim>\<open>catch\<close> block of \<^verbatim>\<open>predictFloodRisk\<close>, which always throws a new error.\<close>

definition server_message :: "jsval \<Rightarrow> jsval" where
  "server_message data =
     js_or (js_or (get_opt data ''detail'') (get_opt data ''message''))
       (JStr ''Unknown server error'')"

definition predictFloodRisk_catch :: "js_ops \<Rightarrow> thrown \<Rightarrow> thrown" where
  "predictFloodRisk_catch ops error =
     (case response_of error of
        Some (status, data) \<Rightarrow>
          if status = 503 then Error ''Model not loaded on server. Please check server logs.''
          else if status = 400
          then Error (''Invalid request: '' @ to_str ops (server_message data))
          else Error (''Server error ('' @ show_nat status @ ''): ''
                      @ to_str ops (server_message data))
      | None \<Rightarrow>
          if request_of error
          then Error (''Cannot connect to backend server. Make sure your FastAPI server ''
                      @ ''is running on http://127.0.0.1:8000'')
          else Error (''Request failed: '' @ message_of error))"

definition predictFloodRisk :: "js_ops \<Rightarrow> server \<Rightarrow> jsval \<Rightarrow> request list \<times> (thrown + jsval)" where
  "predictFloodRisk ops server rainfallData =
     (if bad_series rainfallData
      then ([], Inl (predictFloodRisk_catch ops (Error validation_message)))
      else
        let req = \<lparr>http_method = ''POST'', url = ''/predict'',
                   body = JObj [(''rainfall_values'', rainfallData)]\<rparr> in
        ([req],
         case axios_result (server req) of
           Inr data \<Rightarrow> Inr data
         | Inl error \<Rightarrow> Inl (predictFloodRisk_catch ops error)))"

text \<open>\<^verbatim>\<open>predictFloodRiskSimple\<close>: the \<^verbatim>\<open>catch\<close> block rethrows what it caught.\<close>

definition predictFloodRiskSimple :: "server \<Rightarrow> jsval \<Rightarrow> request list \<times> (thrown + jsval)" where
  "predictFloodRiskSimple server rainfallData =
     (if bad_series rainfallData then ([], Inl (Error validation_message))
      else
        let req = \<lparr>http_method = ''POST'', url = ''/predict-simple'', body = rainfallData\<rparr> in
        ([req], axios_result (server req)))"

definition predictFloodRiskWithWeather_catch :: "js_ops \<Rightarrow> thrown \<Rightarrow> thrown" where
  "predictFloodRiskWithWeather_catch ops error =
     (case response_of error of
        Some (status, data) \<Rightarrow>
          if status = 503
          then Error ''Weather service not available. Please check API configuration.''
          else if status = 400
          then Error (''Invalid request: '' @ to_str ops (server_message data))
          else Error (''Server error ('' @ show_nat status @ ''): ''
                      @ to_str ops (server_message data))
      | None \<Rightarrow>
          if request_of error
          then Error ''Cannot connect to backend server. Make sure your FastAPI server is running.''
          else Error (''Request failed: '' @ message_of error))"

text \<open>A parameter with a default value takes it when the argument is \<^verbatim>\<open>undefined\<close>.\<close>

definition default_param :: "jsval \<Rightarrow> jsval \<Rightarrow> jsval" where
  "default_param v d = (if v = JUndefined then d else v)"

definition predictFloodRiskWithWeather ::
  "js_ops \<Rightarrow> server \<Rightarrow> jsval \<Rightarrow> jsval \<Rightarrow> jsval \<Rightarrow> jsval \<Rightarrow> request list \<times> (thrown + jsval)" where
  "predictFloodRiskWithWeather ops server rainfallData lat0 lon0 useForecast0 =
     (if truthy rainfallData \<and> bad_series rainfallData
      then ([], Inl (predictFloodRiskWithWeather_catch ops (Error validation_message)))
      else
        let lat = default_param lat0 JNull;
            lon = default_param lon0 JNull;
            useForecast = default_param useForecast0 (JBool True);
            b0 = (if truthy rainfallData
                  then [(''rainfall_data'', JObj [(''rainfall_values'', rainfallData)])]
                  else []);
            b1 = (if lat \<noteq> JNull then b0 @ [(''lat'', lat)] else b0);
            b2 = (if lon \<noteq> JNull then b1 @ [(''lon'', lon)] else b1);
            requestBody = b2 @ [(''use_forecast'', useForecast)];
            req = \<lparr>http_method = ''POST'', url = ''/predict-with-weather'',
                   body = JObj requestBody\<rparr> in
        ([req],
         case axios_result (server req) of
           Inr data \<Rightarrow> Inr data
         | Inl error \<Rightarrow> Inl (predictFloodRiskWithWeather_catch ops error)))"

text \<open>\<^verbatim>\<open>predictSingleWard(wardId, ...)\<close>: the ward code goes into the path as it is, and
  the \<^verbatim>\<open>catch\<close> block rethrows.\<close>

definition predictSingleWard_request :: "js_ops \<Rightarrow> jsval \<Rightarrow> request" where
  "predictSingleWard_request ops wardId =
     \<lparr>http_method = ''POST'', url = ''/predict/ward/'' @ to_str ops wardId, body = JUndefined\<rparr>"

definition predictSingleWard :: "js_ops \<Rightarrow> server \<Rightarrow> jsval \<Rightarrow> request list \<times> (thrown + jsval)" where
  "predictSingleWard ops server wardId =
     ([predictSingleWard_request ops wardId],
      axios_result (server (predictSingleWard_request ops wardId)))"

text \<open>\<^verbatim>\<open>getWardFloodPrediction(wardCode)\<close>: the request, and what the function makes of
  the outcome.\<close>

definition getWardFloodPrediction_request :: "js_ops \<Rightarrow> jsval \<Rightarrow> request" where
  "getWardFloodPrediction_request ops wardCode =
     \<lparr>http_method = ''POST'',
      url = ''/predict/ward/'' @ encodeURIComponent (to_str ops wardCode),
      body = JUndefined\<rparr>"

definition getWardFloodPrediction_settle :: "js_ops \<Rightarrow> jsval \<Rightarrow> http_outcome \<Rightarrow> thrown + jsval" where
  "getWardFloodPrediction_settle ops wardCode out =
     (case axios_result out of
        Inr data \<Rightarrow> Inr data
      | Inl error \<Rightarrow>
          if status_is error 503
          then Inl (Error ''Flood prediction models not initialized. Please check server status.'')
          else if status_is error 404
          then Inl (Error (''Weather data not available for ward '' @ to_str ops wardCode))
          else if status_is error 500
          then Inl (Error (''Prediction error for ward '' @ to_str ops wardCode
                           @ ''. Please try again.''))
          else Inl error)"

definition getWardFloodPrediction :: "js_ops \<Rightarrow> server \<Rightarrow> jsval \<Rightarrow> request list \<times> (thrown + jsval)" where
  "getWardFloodPrediction ops server wardCode =
     ([getWardFloodPrediction_request ops wardCode],
      getWardFloodPrediction_settle ops wardCode
        (server (getWardFloodPrediction_request ops wardCode)))"

definition getAllWardsFloodPrediction_request :: request where
  "getAllWardsFloodPrediction_request =
     \<lparr>http_method = ''GET'', url = ''/predict/all-wards'', body = JUndefined\<rparr>"

definition getAllWardsFloodPrediction_settle :: "http_outcome \<Rightarrow> thrown + jsval" where
  "getAllWardsFloodPrediction_settle out =
     (case axios_result out of
        Inr data \<Rightarrow> Inr data
      | Inl error \<Rightarrow>
          if status_is error 503
          then Inl (Error ''Flood prediction models not initialized. Please check server status.'')
          else Inl error)"

definition getAllWardsFloodPrediction :: "server \<Rightarrow> request list \<times> (thrown + jsval)" where
  "getAllWardsFloodPrediction server =
     ([getAllWardsFloodPrediction_request],
      getAllWardsFloodPrediction_settle (server getAllWardsFloodPrediction_request))"

definition getWardCurrentWeather_request :: "js_ops \<Rightarrow> jsval \<Rightarrow> request" where
  "getWardCurrentWeather_request ops wardCode =
     \<lparr>http_method = ''GET'', url = ''/weather/current/'' @ to_str ops wardCode,
      body = JUndefined\<rparr>"

definition getWardCurrentWeather_settle :: "http_outcome \<Rightarrow> thrown + jsval" where
  "getWardCurrentWeather_settle out =
     (case axios_result out of
        Inr data \<Rightarrow> Inr data
      | Inl error \<Rightarrow>
          if status_is error 503 then Inl (Error ''Weather service not initialized.'')
          else Inl error)"

definition getWardCurrentWeather :: "js_ops \<Rightarrow> server \<Rightarrow> jsval \<Rightarrow> request list \<times> (thrown + jsval)" where
  "getWardCurrentWeather ops server wardCode =
     ([getWardCurrentWeather_request ops wardCode],
      getWardCurrentWeather_settle (server (getWardCurrentWeather_request ops wardCode)))"

section \<open>Aggregate statistics (StatsCards.js)\<close>

text \<open>\<^verbatim>\<open>Object.keys(obj)\<close> on the list of an object's properties.\<close>

definition object_keys :: "(string \<times> jsval) list \<Rightarrow> string list" where
  "object_keys obj = map fst obj"

text \<open>\<^verbatim>\<open>xs.forEach(f)\<close> over a state, stopping at the first exception.\<close>

fun forEach :: "('a \<Rightarrow> 's \<Rightarrow> thrown + 's) \<Rightarrow> 'a list \<Rightarrow> 's \<Rightarrow> thrown + 's" where
  "forEach f [] s = Inr s"
| "forEach f (x # xs) s = bind (f x s) (forEach f xs)"

text \<open>The local variables of \<^verbatim>\<open>calculateStats\<close> and the object it returns.\<close>

record stats_vars =
  lowRisk_var :: nat
  mediumRisk_var :: nat
  highRisk_var :: nat
  floodExpected_var :: nat
  avgBayesianProb_var :: jsval

record stats =
  totalWards :: nat
  lowRisk :: nat
  mediumRisk :: nat
  highRisk :: nat
  floodExpected :: nat
  avgBayesianProb :: string

text \<open>The body of the loop over \<^verbatim>\<open>Object.values(predictions)\<close>.\<close>

definition stats_step :: "js_ops \<Rightarrow> jsval \<Rightarrow> stats_vars \<Rightarrow> thrown + stats_vars" where
  "stats_step ops prediction v =
     bind (get prediction ''riskLevel'') (\<lambda>level.
     let v1 = (if level = JNum (Fin 0) then v\<lparr>lowRisk_var := lowRisk_var v + 1\<rparr>
               else if level = JNum (Fin 1) then v\<lparr>mediumRisk_var := mediumRisk_var v + 1\<rparr>
               else if level = JNum (Fin 2) then v\<lparr>highRisk_var := highRisk_var v + 1\<rparr>
               else v) in
     bind (get prediction ''willFlood'') (\<lambda>willFlood.
     let v2 = (if truthy willFlood then v1\<lparr>floodExpected_var := floodExpected_var v1 + 1\<rparr>
               else v1) in
     bind (get prediction ''bayesianProbability'') (\<lambda>bp.
     Inr (v2\<lparr>avgBayesianProb_var :=
                js_add ops (avgBayesianProb_var v2) (js_or bp (JNum (Fin 0)))\<rparr>))))"

text \<open>
  \<^verbatim>\<open>calculateStats()\<close> over the \<^verbatim>\<open>predictions\<close> object, given as the list of its
  properties.
\<close>

definition calculateStats :: "js_ops \<Rightarrow> (string \<times> jsval) list \<Rightarrow> thrown + stats" where
  "calculateStats ops predictions =
     (let total = length (object_keys predictions) in
      bind (forEach (stats_step ops) (map snd predictions)
              \<lparr>lowRisk_var = 0, mediumRisk_var = 0, highRisk_var = 0,
               floodExpected_var = 0, avgBayesianProb_var = JNum (Fin 0)\<rparr>) (\<lambda>v.
      let avg = (if 0 < total
                 then JNum (js_div ops (avgBayesianProb_var v) (JNum (Fin (of_nat total))))
                 else JNum (Fin 0)) in
      Inr \<lparr>totalWards = total,
           lowRisk = lowRisk_var v,
           mediumRisk = mediumRisk_var v,
           highRisk = highRisk_var v,
           floodExpected = floodExpected_var v,
           avgBayesianProb = toFixed ops 1 (js_mul ops avg (JNum (Fin 100)))\<rparr>))"

text \<open>
  Vocabulary for the statistics: the summand that the loop reads from an entry
  (\<^verbatim>\<open>prediction.bayesianProbability || 0\<close>), its value when it is a finite number, and
  the arithmetic mean of a list of numbers.
\<close>

definition summand :: "jsval \<Rightarrow> jsval" where
  "summand e = js_or (get_opt e ''bayesianProbability'') (JNum (Fin 0))"


definition mean :: "rat list \<Rightarrow> rat" where
  "mean qs = sum_list qs / of_nat (length qs)"

section \<open>The map: centroids, styles and the click handler (MapComponent)\<close>

text \<open>
  The geometry of a boundary feature is a GeoJSON polygon: \<^verbatim>\<open>coordinates\<close> is an array
  of rings, a ring an array of positions, a position an array of numbers. \<open>None\<close>
  stands for an absent (\<^verbatim>\<open>null\<close> or \<^verbatim>\<open>undefined\<close>) \<^verbatim>\<open>coordinates\<close>.
\<close>

type_synonym position = "rat list"

type_synonym ring = "position list"

record centroid =
  longitude :: jsnum
  latitude :: jsnum

text \<open>\<^verbatim>\<open>p[i]\<close> as a summand: reading past the end gives \<^verbatim>\<open>undefined\<close>, which adds as \<open>NaN\<close>.\<close>

definition coord :: "position \<Rightarrow> nat \<Rightarrow> jsnum" where
  "coord p i = (if i < length p then Fin (p ! i) else NaN)"

text \<open>The \<^verbatim>\<open>for\<close> loop of \<^verbatim>\<open>calculateCentroid\<close> over the outer ring.\<close>

fun centroid_loop :: "ring \<Rightarrow> jsnum \<times> jsnum \<Rightarrow> jsnum \<times> jsnum" where
  "centroid_loop [] (x, y) = (x, y)"
| "centroid_loop (p # ps) (x, y) =
     centroid_loop ps (num_add x (coord p 0), num_add y (coord p 1))"

definition calculateCentroid :: "ring list option \<Rightarrow> centroid option" where
  "calculateCentroid coordinates =
     (case coordinates of
        None \<Rightarrow> None
      | Some [] \<Rightarrow> None
      | Some (polygon # rest) \<Rightarrow>
          (case centroid_loop polygon (Fin 0, Fin 0) of
             (x, y) \<Rightarrow>
               Some \<lparr>longitude = num_div x (Fin (of_nat (length polygon))),
                     latitude = num_div y (Fin (of_nat (length polygon)))\<rparr>))"

text \<open>
  A boundary feature: its \<^verbatim>\<open>properties\<close>, read as loosely as a response, and the
  \<^verbatim>\<open>coordinates\<close> of its geometry (every feature has a geometry object).
\<close>

record feature =
  properties :: jsval
  coordinates :: "ring list option"


text \<open>\<^verbatim>\<open>obj[key]\<close> on the list of an object's properties, and \<^verbatim>\<open>{...obj, [key]: v}\<close>: the
  property keeps its place when it exists and is appended otherwise.\<close>

definition lookup :: "(string \<times> jsval) list \<Rightarrow> string \<Rightarrow> jsval" where
  "lookup obj key = (case map_of obj key of Some v \<Rightarrow> v | None \<Rightarrow> JUndefined)"

fun set_prop :: "(string \<times> jsval) list \<Rightarrow> string \<Rightarrow> jsval \<Rightarrow> (string \<times> jsval) list" where
  "set_prop [] key v = [(key, v)]"
| "set_prop ((k, w) # obj) key v =
     (if k = key then (key, v) # obj else (k, w) # set_prop obj key v)"




text \<open>\<^verbatim>\<open>Object.values(v)\<close> of a value that is neither \<^verbatim>\<open>undefined\<close> nor \<^verbatim>\<open>null\<close>, and
  \<^verbatim>\<open>Math.max(...vs)\<close>.\<close>

fun object_values :: "jsval \<Rightarrow> jsval list" where
  "object_values (JObj kvs) = map snd kvs"
| "object_values (JArr xs) = xs"
| "object_values (JStr s) = map (\<lambda>c. JStr [c]) s"
| "object_values v = []"

fun num_le :: "jsnum \<Rightarrow> jsnum \<Rightarrow> bool" where
  "num_le (Fin a) (Fin b) = (a \<le> b)"
| "num_le NegInf y = True"
| "num_le x PosInf = True"
| "num_le x y = False"

definition num_max :: "jsnum \<Rightarrow> jsnum \<Rightarrow> jsnum" where
  "num_max x y = (if x = NaN \<or> y = NaN then NaN else if num_le x y then y else x)"

definition math_max :: "js_ops \<Rightarrow> jsval list \<Rightarrow> jsnum" where
  "math_max ops vs = foldl (\<lambda>m v. num_max m (ToNumber ops v)) NegInf vs"

text \<open>
  An instance of the uninterpreted conversions, for the concrete examples.
\<close>

definition sample_ops :: js_ops where
  "sample_ops =
     \<lparr>NumberToString = (\<lambda>q. ''?''), StringToNumber = (\<lambda>s. NaN), parseFloat_of = (\<lambda>s. NaN)\<rparr>"

section \<open>The application state and the handlers that change it\<close>

text \<open>
  The state that \<^verbatim>\<open>App\<close>, \<^verbatim>\<open>Dashboard\<close> and \<^verbatim>\<open>MapComponent\<close> hold: the map from region to
  prediction, the selected region, the loading flag, the coordinates handed to the
  weather panel, the map's notification and the application's error.
\<close>

record app_state =
  predictions :: "(string \<times> jsval) list"
  selectedWard :: jsval
  loading :: bool
  wardCoordinates :: jsval
  notification :: string
  app_error :: jsval

definition initial_state :: app_state where
  "initial_state =
     \<lparr>predictions = [], selectedWard = JNull, loading = False, wardCoordinates = JNull,
      notification = [], app_error = JNull\<rparr>"

text \<open>What the click handler's continuation closes over.\<close>

record click_closure =
  closure_wardName :: jsval
  closure_wardCode :: jsval
  closure_coordinates :: "centroid option"
  closure_properties :: jsval

definition centroid_value :: "centroid option \<Rightarrow> jsval" where
  "centroid_value c =
     (case c of
        None \<Rightarrow> JNull
      | Some c \<Rightarrow> JObj [(''longitude'', JNum (longitude c)), (''latitude'', JNum (latitude c))])"

text \<open>
  The click handler up to its \<^verbatim>\<open>await\<close>: it selects the ward, raises the loading flag,
  hands the centroid to the parent when a callback is installed (\<open>hasCallback\<close>), and
  sends the prediction request (the rainfall, tide and season that it also passes are
  not used by \<^verbatim>\<open>predictSingleWard\<close>). An exception leaves the state as it was changed so
  far.
\<close>

definition click_start ::
  "js_ops \<Rightarrow> bool \<Rightarrow> feature \<Rightarrow> app_state \<Rightarrow> app_state \<times> (thrown + click_closure \<times> request)" where
  "click_start ops hasCallback feature s =
     (case get (properties feature) ''ward_name_full'' of
        Inl e \<Rightarrow> (s, Inl e)
      | Inr full \<Rightarrow>
          let wardName = js_or full (JStr ''Unknown Ward'');
              wardCode = js_or (get_opt (properties feature) ''ward_code'') (JStr ''N/A'');
              centre = calculateCentroid (coordinates feature);
              s1 = s\<lparr>selectedWard := wardName, loading := True\<rparr>;
              closure = \<lparr>closure_wardName = wardName, closure_wardCode = wardCode,
                         closure_coordinates = centre,
                         closure_properties = properties feature\<rparr>;
              started = Inr (closure, predictSingleWard_request ops wardCode)
          in if hasCallback
             then (case centre of
                     None \<Rightarrow>
                       (s1, Inl (TypeError ''Cannot read properties of null (reading latitude)''))
                   | Some c \<Rightarrow>
                       (s1\<lparr>wardCoordinates :=
                             JObj [(''latitude'', JNum (latitude c)),
                                   (''longitude'', JNum (longitude c)),
                                   (''wardName'', wardName),
                                   (''wardCode'', wardCode)]\<rparr>,
                        started))
             else (s1, started))"

text \<open>The label of a tree-ensemble level, in the two spellings the handler uses.\<close>

definition level_label :: "jsval \<Rightarrow> string \<Rightarrow> string \<Rightarrow> string \<Rightarrow> string" where
  "level_label level high medium low =
     (if level = JNum (Fin 2) then high else if level = JNum (Fin 1) then medium else low)"

text \<open>
  The level the handler derives from the probabilistic network's probability \<open>bp\<close>:
  \<^verbatim>\<open>(bp || 0) > 0.7 ? 'High' : (bp || 0) > 0.3 ? 'Medium' : 'Low'\<close>.
\<close>

definition network_risk_level :: "js_ops \<Rightarrow> jsval \<Rightarrow> string" where
  "network_risk_level ops bp =
     (if js_gt ops (js_or bp (JNum (Fin 0))) (7 / 10) then ''High''
      else if js_gt ops (js_or bp (JNum (Fin 0))) (3 / 10) then ''Medium''
      else ''Low'')"

text \<open>\<^verbatim>\<open>v ? parseFloat(v).toFixed(2) : "N/A"\<close>.\<close>

definition fixed2_or_na :: "js_ops \<Rightarrow> jsval \<Rightarrow> jsval" where
  "fixed2_or_na ops v =
     (if truthy v then JStr (toFixed ops 2 (parseFloat_of ops (to_str ops v)))
      else JStr ''N/A'')"

text \<open>
  The \<^verbatim>\<open>enhancedPrediction\<close> that the handler builds from the response. The first read
  of the response throws when the response is \<^verbatim>\<open>null\<close> or \<^verbatim>\<open>undefined\<close>; after it no
  other read can.
\<close>

definition enhance :: "js_ops \<Rightarrow> click_closure \<Rightarrow> jsval \<Rightarrow> thrown + jsval" where
  "enhance ops closure prediction =
     bind (get prediction ''bayesian_probability'') (\<lambda>bp.
     let rf = get_opt prediction ''random_forest'';
         ca = get_opt prediction ''combined_assessment'';
         level = get_opt rf ''flood_risk_level'';
         confidence = js_or (get_opt ca ''confidence'') (JStr ''Medium'');
         high_risk = truthy (get_opt ca ''high_risk'');
         probs = get_opt rf ''risk_probabilities'';
         zone = get_opt prediction ''ward_risk_zone'';
         props = closure_properties closure
     in Inr (JObj
       [(''flood_risk_probability'', bp),
        (''risk_level'', JStr (level_label level ''high'' ''medium'' ''low'')),
        (''confidence'', confidence),
        (''will_flood'', js_or (get_opt rf ''will_flood'') (JBool False)),
        (''ward_risk_zone'', zone),
        (''weather_data'', get_opt prediction ''weather_data''),
        (''timestamp'', get_opt prediction ''timestamp''),
        (''overall_assessment'', JObj
           [(''combined_risk_level'', JStr (if high_risk then ''High'' else ''Low'')),
            (''combined_flood_probability'', js_or bp (JNum (Fin 0))),
            (''models_used'', JStr ''Random Forest + Bayesian Network + K-means''),
            (''recommendation'', JStr
               (if high_risk
                then ''High flood risk detected. Avoid travel to this area if possible.''
                else ''Low flood risk. Normal conditions expected.''))]),
        (''random_forest'', JObj
           [(''flood_probability'',
               (if truthy probs then JNum (math_max ops (object_values probs))
                else JNum (Fin 0))),
            (''risk_level'', JStr (level_label level ''High'' ''Medium'' ''Low'')),
            (''confidence'', confidence)]),
        (''bayesian_network'', JObj
           [(''flood_probability'', js_or bp (JNum (Fin 0))),
            (''risk_level'', JStr (network_risk_level ops bp))]),
        (''cluster_analysis'', JObj [(''cluster'', zone), (''cluster_risk_level'', zone)]),
        (''wardDetails'', JObj
           [(''name'', closure_wardName closure),
            (''code'', closure_wardCode closure),
            (''coordinates'', centroid_value (closure_coordinates closure)),
            (''area'', fixed2_or_na ops (get_opt props ''Shape__Area'')),
            (''perimeter'', fixed2_or_na ops (get_opt props ''Shape__Length'')),
            (''objectId'', js_or (get_opt props ''OBJECTID'') (JStr ''N/A''))])]))"

text \<open>
  The click handler after its \<^verbatim>\<open>await\<close>, run when the request of this click settles:
  it stores the enhanced prediction under the ward name it closed over, or shows a
  notification, and lowers the loading flag. Nothing in it looks at the current
  selection.
\<close>

definition click_finish :: "js_ops \<Rightarrow> click_closure \<Rightarrow> http_outcome \<Rightarrow> app_state \<Rightarrow> app_state" where
  "click_finish ops closure out s =
     (case bind (axios_result out) (enhance ops closure) of
        Inr enhancedPrediction \<Rightarrow>
          s\<lparr>predictions :=
              set_prop (predictions s) (to_str ops (closure_wardName closure))
                enhancedPrediction,
            loading := False\<rparr>
      | Inl error \<Rightarrow>
          s\<lparr>notification :=
              ''Error connecting to backend: '' @ message_of error
              @ ''. Make sure the server is running.'',
            loading := False\<rparr>)"

subsection \<open>The prediction panel (FloodPredictionPanel)\<close>

record panel_state =
  panel_prediction :: jsval
  panel_weather :: jsval
  panel_loading :: bool
  panel_error :: jsval


definition loadWardPrediction_start :: "panel_state \<Rightarrow> panel_state" where
  "loadWardPrediction_start p = p\<lparr>panel_loading := True, panel_error := JNull\<rparr>"

text \<open>\<^verbatim>\<open>Promise.all\<close> of two promises: both values, or the rejection that came first.\<close>

definition promise_all2 :: "bool \<Rightarrow> thrown + 'a \<Rightarrow> thrown + 'b \<Rightarrow> thrown + 'a \<times> 'b" where
  "promise_all2 second_first r1 r2 =
     (case (r1, r2) of
        (Inr a, Inr b) \<Rightarrow> Inr (a, b)
      | (Inl e, Inr b) \<Rightarrow> Inl e
      | (Inr a, Inl e) \<Rightarrow> Inl e
      | (Inl e1, Inl e2) \<Rightarrow> Inl (if second_first then e2 else e1))"

text \<open>The callback that \<^verbatim>\<open>Dashboard\<close> installs as \<^verbatim>\<open>onPredictionUpdate\<close>.\<close>

definition onPredictionUpdate :: "js_ops \<Rightarrow> jsval \<Rightarrow> jsval \<Rightarrow> app_state \<Rightarrow> app_state" where
  "onPredictionUpdate ops wardCode prediction s =
     s\<lparr>predictions := set_prop (predictions s) (to_str ops wardCode) prediction\<rparr>"

text \<open>
  \<^verbatim>\<open>loadWardPrediction(wardCode)\<close> after its \<^verbatim>\<open>await\<close>, run when both requests have
  settled (\<open>weather_first\<close> says which rejection came first when both fail).
\<close>

definition loadWardPrediction_finish ::
  "js_ops \<Rightarrow> string \<Rightarrow> jsval \<Rightarrow> http_outcome \<Rightarrow> http_outcome \<Rightarrow> bool
     \<Rightarrow> panel_state \<times> app_state \<Rightarrow> panel_state \<times> app_state" where
  "loadWardPrediction_finish ops now wardCode out1 out2 weather_first ps =
     (case bind (promise_all2 weather_first
                   (getWardFloodPrediction_settle ops wardCode out1)
                   (getWardCurrentWeather_settle out2))
             (\<lambda>(predictionData, weatherData).
                bind (formatFloodPrediction now predictionData) (\<lambda>formattedPrediction.
                Inr (formattedPrediction, weatherData))) of
        Inr (formattedPrediction, weatherData) \<Rightarrow>
          ((fst ps)\<lparr>panel_prediction := formattedPrediction, panel_weather := weatherData,
                    panel_loading := False\<rparr>,
           onPredictionUpdate ops wardCode formattedPrediction (snd ps))
      | Inl error \<Rightarrow>
          ((fst ps)\<lparr>panel_error := JStr (message_of error), panel_loading := False\<rparr>, snd ps))"

subsection \<open>The weather panel (WardWeatherDetails) and one selection as a whole\<close>





subsection \<open>Bulk loading (App) and the ward demo's own map (WardMapDemo)\<close>

text \<open>The body of the loop of \<^verbatim>\<open>loadAllPredictions\<close> over \<^verbatim>\<open>response.predictions\<close>.\<close>

definition loadAll_step ::
  "js_ops \<Rightarrow> string \<Rightarrow> jsval \<Rightarrow> (string \<times> jsval) list \<Rightarrow> thrown + (string \<times> jsval) list" where
  "loadAll_step ops now prediction formattedPredictions =
     bind (formatFloodPrediction now prediction) (\<lambda>formatted.
     bind (get formatted ''wardCode'') (\<lambda>code.
     Inr (set_prop formattedPredictions (to_str ops code) formatted)))"

definition loadAllPredictions_start :: "app_state \<Rightarrow> app_state \<times> request list" where
  "loadAllPredictions_start s =
     (s\<lparr>loading := True, app_error := JNull\<rparr>, [getAllWardsFloodPrediction_request])"

text \<open>
  \<^verbatim>\<open>loadAllPredictions\<close> after its \<^verbatim>\<open>await\<close>: the freshly built object replaces the whole
  map (the time of the last update, which it also sets, is not part of the state here).
\<close>

definition loadAllPredictions_finish ::
  "js_ops \<Rightarrow> string \<Rightarrow> http_outcome \<Rightarrow> app_state \<Rightarrow> app_state" where
  "loadAllPredictions_finish ops now out s =
     (case bind (getAllWardsFloodPrediction_settle out) (\<lambda>response.
           bind (get response ''predictions'') (\<lambda>list.
           case list of
             JArr xs \<Rightarrow> forEach (loadAll_step ops now) xs []
           | _ \<Rightarrow> Inl (TypeError ''response.predictions.forEach is not a function''))) of
        Inr formattedPredictions \<Rightarrow> s\<lparr>predictions := formattedPredictions, loading := False\<rparr>
      | Inl error \<Rightarrow> s\<lparr>app_error := JStr (message_of error), loading := False\<rparr>)"

text \<open>The \<^verbatim>\<open>Clear Results\<close> button of the ward demo: \<^verbatim>\<open>setWardPredictions({})\<close>.\<close>

definition clearResults :: "(string \<times> jsval) list \<Rightarrow> (string \<times> jsval) list" where
  "clearResults wardPredictions = []"

section \<open>Basic facts about values\<close>

declare show_nat.simps [simp del]

lemma nullish_simps [simp]:
  "nullish JUndefined" "nullish JNull" "\<not> nullish (JBool b)" "\<not> nullish (JNum n)"
  "\<not> nullish (JStr s)" "\<not> nullish (JArr xs)" "\<not> nullish (JObj kvs)"
  by (simp_all add: nullish_def)

lemma truthy_not_nullish: "truthy v \<Longrightarrow> \<not> nullish v"
  by (auto simp: nullish_def)

lemma get_truthy: "truthy v \<Longrightarrow> get v k = Inr (get_opt v k)"
  by (simp add: get_def truthy_not_nullish)

lemma get_not_nullish: "\<not> nullish v \<Longrightarrow> get v k = Inr (get_opt v k)"
  by (simp add: get_def)

lemma truthy_js_or: "truthy b \<Longrightarrow> truthy (js_or a b)"
  by (simp add: js_or_def)

lemma js_or_not_nullish: "\<not> nullish b \<Longrightarrow> \<not> nullish (js_or a b)"
  by (simp add: js_or_def truthy_not_nullish)

lemma bind_Inr [simp]: "bind (Inr x) f = f x"
  by (simp add: bind_def)

lemma bind_Inl [simp]: "bind (Inl e) f = Inl e"
  by (simp add: bind_def)

section \<open>The normaliser is total and defaults its fields\<close>

lemma formatFloodPrediction_truthy:
  assumes "truthy p"
  shows "formatFloodPrediction now p =
    Inr (JObj
      [(''wardCode'', get_opt p ''ward_code''),
       (''wardName'', get_opt p ''ward_name''),
       (''riskZone'', js_or (get_opt p ''ward_risk_zone'') (JStr ''Unknown'')),
       (''riskLevel'',
          js_or (get_opt (js_or (get_opt p ''random_forest'') (JObj [])) ''flood_risk_level'')
            (JNum (Fin 0))),
       (''willFlood'',
          js_or (get_opt (js_or (get_opt p ''random_forest'') (JObj [])) ''will_flood'')
            (JBool False)),
       (''riskProbabilities'',
          js_or (get_opt (js_or (get_opt p ''random_forest'') (JObj [])) ''risk_probabilities'')
            (JObj [])),
       (''bayesianProbability'', js_or (get_opt p ''bayesian_probability'') (JNum (Fin 0))),
       (''highRisk'',
          js_or (get_opt (js_or (get_opt p ''combined_assessment'') (JObj [])) ''high_risk'')
            (JBool False)),
       (''confidence'',
          js_or (get_opt (js_or (get_opt p ''combined_assessment'') (JObj [])) ''confidence'')
            (JStr ''Medium'')),
       (''timestamp'', js_or (get_opt p ''timestamp'') (JStr now)),
       (''weatherData'', js_or (get_opt p ''weather_data'') (JObj []))])"
  using assms
  by (simp add: formatFloodPrediction_def get_truthy truthy_js_or Let_def)

lemma formatFloodPrediction_falsy:
  "\<not> truthy p \<Longrightarrow> formatFloodPrediction now p = Inr JNull"
  by (simp add: formatFloodPrediction_def)

lemma formatFloodPrediction_total: "\<exists>r. formatFloodPrediction now p = Inr r"
  by (cases "truthy p") (simp_all add: formatFloodPrediction_truthy formatFloodPrediction_falsy)

lemma formatFloodPrediction_populated:
  assumes "truthy p" and "formatFloodPrediction now p = Inr r"
  shows "fully_populated r"
proof -
  from assms have "Inr r = formatFloodPrediction now p" by simp
  also note formatFloodPrediction_truthy [OF assms(1)]
  finally show ?thesis
    by (simp add: fully_populated_def defaulted_fields_def js_or_not_nullish)
qed

text \<open>
  Claim C2, as the code has it. \<^verbatim>\<open>formatFloodPrediction\<close> never throws, whatever the raw
  input is. For a truthy input it returns an object in which every defaulted field
  (risk zone, risk level, flood flag, per-class probabilities, flood probability,
  combined flag, confidence, time stamp, weather inputs) is neither \<^verbatim>\<open>undefined\<close> nor
  \<^verbatim>\<open>null\<close>. For a falsy input (\<^verbatim>\<open>null\<close>, \<^verbatim>\<open>undefined\<close>, \<^verbatim>\<open>0\<close>, \<^verbatim>\<open>NaN\<close>, the empty string,
  \<^verbatim>\<open>false\<close>) the explicit guard returns \<^verbatim>\<open>null\<close> and no record at all.
\<close>

theorem C2_normalize_total_and_populated:
  "(\<exists>r. formatFloodPrediction now p = Inr r)
   \<and> (truthy p \<longrightarrow> (\<exists>r. formatFloodPrediction now p = Inr r \<and> fully_populated r))
   \<and> (\<not> truthy p \<longrightarrow> formatFloodPrediction now p = Inr JNull)"
proof (cases "truthy p")
  case True
  then obtain r where r: "formatFloodPrediction now p = Inr r"
    by (simp add: formatFloodPrediction_truthy)
  with True have "fully_populated r" by (rule formatFloodPrediction_populated)
  with True r show ?thesis by simp
next
  case False
  then show ?thesis
    by (simp add: formatFloodPrediction_falsy)
qed

text \<open>
  A witness: a response that carries only a non-numeric probability and an empty risk
  zone is truthy, and its record is fully populated.
\<close>

theorem C2_normalize_witness:
  "truthy (JObj [(''bayesian_probability'', JStr ''n/a''), (''ward_risk_zone'', JStr [])])
   \<and> (\<exists>r. formatFloodPrediction ''2025-07-01T00:00:00.000Z''
          (JObj [(''bayesian_probability'', JStr ''n/a''), (''ward_risk_zone'', JStr [])]) = Inr r
        \<and> fully_populated r)"
  using C2_normalize_total_and_populated
    [of "''2025-07-01T00:00:00.000Z''"
        "JObj [(''bayesian_probability'', JStr ''n/a''), (''ward_risk_zone'', JStr [])]"]
  by simp

text \<open>
  The claim as stated fails at \<^verbatim>\<open>null\<close>: the result is \<^verbatim>\<open>null\<close>, which is no populated
  record. The two fields that are passed through without a default, the ward code and
  the ward name, are \<^verbatim>\<open>undefined\<close> in the record of an input that lacks them.
\<close>

theorem C2_null_input_counterexample:
  "formatFloodPrediction ''2025-07-01T00:00:00.000Z'' JNull = Inr JNull
   \<and> \<not> fully_populated JNull
   \<and> map_sum id (\<lambda>r. get_opt r ''wardCode'')
         (formatFloodPrediction ''2025-07-01T00:00:00.000Z'' (JObj []))
       = Inr JUndefined"
  by code_simp

section \<open>The normaliser and the clock\<close>

lemma formatFloodPrediction_clock_free:
  assumes "\<not> truthy p \<or> truthy (get_opt p ''timestamp'')"
  shows "formatFloodPrediction now1 p = formatFloodPrediction now2 p"
proof (cases "truthy p")
  case True
  with assms have "truthy (get_opt p ''timestamp'')" by simp
  then have "js_or (get_opt p ''timestamp'') (JStr now1) = js_or (get_opt p ''timestamp'') (JStr now2)"
    by (simp add: js_or_def)
  with True show ?thesis by (simp add: formatFloodPrediction_truthy)
next
  case False
  then show ?thesis by (simp add: formatFloodPrediction_falsy)
qed

lemma formatFloodPrediction_other_fields:
  assumes "formatFloodPrediction now1 p = Inr r1" and "formatFloodPrediction now2 p = Inr r2"
    and "k \<noteq> ''timestamp''"
  shows "get_opt r1 k = get_opt r2 k"
proof (cases "truthy p")
  case True
  show ?thesis
    using assms formatFloodPrediction_truthy [OF True, of now1]
      formatFloodPrediction_truthy [OF True, of now2]
    by auto
next
  case False
  with assms show ?thesis by (simp add: formatFloodPrediction_falsy)
qed

text \<open>
  Claim C9, as the code has it. All fields but the time stamp never depend on the
  clock. The time stamp is the input's own when that is truthy; otherwise it is the
  current time of the call, so two calls on the same input agree in every field exactly
  when the input is falsy or carries a truthy time stamp, or the clock has not moved.
\<close>

theorem C9_normalize_deterministic_up_to_clock:
  "(\<not> truthy p \<or> truthy (get_opt p ''timestamp'')
      \<longrightarrow> formatFloodPrediction now1 p = formatFloodPrediction now2 p)
   \<and> (\<forall>r1 r2 k. formatFloodPrediction now1 p = Inr r1 \<and> formatFloodPrediction now2 p = Inr r2
          \<and> k \<noteq> ''timestamp'' \<longrightarrow> get_opt r1 k = get_opt r2 k)
   \<and> (truthy p \<and> \<not> truthy (get_opt p ''timestamp'')
      \<longrightarrow> (\<exists>r. formatFloodPrediction now1 p = Inr r \<and> get_opt r ''timestamp'' = JStr now1))"
proof (intro conjI impI allI)
  assume "\<not> truthy p \<or> truthy (get_opt p ''timestamp'')"
  then show "formatFloodPrediction now1 p = formatFloodPrediction now2 p"
    by (rule formatFloodPrediction_clock_free)
next
  fix r1 r2 k
  assume "formatFloodPrediction now1 p = Inr r1 \<and> formatFloodPrediction now2 p = Inr r2
    \<and> k \<noteq> ''timestamp''"
  then show "get_opt r1 k = get_opt r2 k"
    using formatFloodPrediction_other_fields by blast
next
  assume "truthy p \<and> \<not> truthy (get_opt p ''timestamp'')"
  then show "\<exists>r. formatFloodPrediction now1 p = Inr r \<and> get_opt r ''timestamp'' = JStr now1"
    by (simp add: formatFloodPrediction_truthy js_or_def)
qed

text \<open>
  An input with its own time stamp, normalised at two different times, gives the same
  record; an input without one gets the time of the call, and the same risk zone at
  both times.
\<close>

theorem C9_normalize_witness:
  "truthy (get_opt (JObj [(''timestamp'', JStr ''2025-06-30T10:00:00'')]) ''timestamp'')
   \<and> formatFloodPrediction ''2025-07-01T00:00:00.000Z''
        (JObj [(''timestamp'', JStr ''2025-06-30T10:00:00'')])
     = formatFloodPrediction ''2025-07-01T00:00:01.000Z''
        (JObj [(''timestamp'', JStr ''2025-06-30T10:00:00'')])
   \<and> map_sum id (\<lambda>r. get_opt r ''timestamp'')
         (formatFloodPrediction ''2025-07-01T00:00:00.000Z'' (JObj []))
       = Inr (JStr ''2025-07-01T00:00:00.000Z'')
   \<and> map_sum id (\<lambda>r. get_opt r ''riskZone'')
         (formatFloodPrediction ''2025-07-01T00:00:00.000Z'' (JObj []))
       = map_sum id (\<lambda>r. get_opt r ''riskZone'')
         (formatFloodPrediction ''2025-07-01T00:00:01.000Z'' (JObj []))"
proof -
  obtain r1 where r1: "formatFloodPrediction ''2025-07-01T00:00:00.000Z'' (JObj []) = Inr r1"
    using formatFloodPrediction_total by blast
  obtain r2 where r2: "formatFloodPrediction ''2025-07-01T00:00:01.000Z'' (JObj []) = Inr r2"
    using formatFloodPrediction_total by blast
  have z: "''riskZone'' \<noteq> ''timestamp''" by simp
  from C9_normalize_deterministic_up_to_clock
    [of "JObj []" "''2025-07-01T00:00:00.000Z''" "''2025-07-01T00:00:01.000Z''"] r1 r2 z
  have "get_opt r1 ''riskZone'' = get_opt r2 ''riskZone''"
    and "get_opt r1 ''timestamp'' = JStr ''2025-07-01T00:00:00.000Z''"
    by auto
  with r1 r2 show ?thesis
    using C9_normalize_deterministic_up_to_clock
      [of "JObj [(''timestamp'', JStr ''2025-06-30T10:00:00'')]"
          "''2025-07-01T00:00:00.000Z''" "''2025-07-01T00:00:01.000Z''"]
    by simp
qed

text \<open>
  The claim as stated fails on an input without a time stamp: two calls one second
  apart return different records.
\<close>

theorem C9_clock_default_counterexample:
  "formatFloodPrediction ''2025-07-01T00:00:00.000Z'' (JObj [])
   \<noteq> formatFloodPrediction ''2025-07-01T00:00:01.000Z'' (JObj [])"
  by (simp add: formatFloodPrediction_truthy js_or_def)

section \<open>Risk levels from probabilities\<close>

lemma getRiskLevel_number:
  "getRiskLevel ops (JNum (Fin q)) =
     (if 7 / 10 \<le> q then ''Critical'' else if 3 / 10 \<le> q then ''High''
      else if 1 / 10 \<le> q then ''Medium'' else ''Low'')"
  by (simp add: getRiskLevel_def js_ge_def)

lemma getRiskLevel_absent:
  "getRiskLevel ops JUndefined = ''Low''" "getRiskLevel ops (JNum NaN) = ''Low''"
  "getRiskLevel ops JNull = ''Low''"
  by (simp_all add: getRiskLevel_def js_ge_def)

lemma network_risk_level_number:
  "network_risk_level ops (JNum (Fin q)) =
     (if 7 / 10 < q then ''High'' else if 3 / 10 < q then ''Medium'' else ''Low'')"
  by (auto simp add: network_risk_level_def js_gt_def js_or_def)

lemma network_risk_level_absent:
  "network_risk_level ops JUndefined = ''Low''" "network_risk_level ops (JNum NaN) = ''Low''"
  "network_risk_level ops JNull = ''Low''"
  by (simp_all add: network_risk_level_def js_gt_def js_or_def)

lemma enhance_ok:
  assumes "\<not> nullish prediction"
  shows "\<exists>e. enhance ops closure prediction = Inr e"
  using assms by (simp add: enhance_def get_not_nullish Let_def)

lemma enhance_nullish:
  assumes "nullish prediction"
  shows "\<exists>e. enhance ops closure prediction = Inl e"
  using assms by (simp add: enhance_def get_def)

lemma enhance_network_level:
  assumes "enhance ops closure prediction = Inr e"
  shows "get_opt (get_opt e ''bayesian_network'') ''risk_level''
         = JStr (network_risk_level ops (get_opt prediction ''bayesian_probability''))"
proof (cases "nullish prediction")
  case True
  with assms show ?thesis by (simp add: enhance_def get_def)
next
  case False
  with assms show ?thesis by (auto simp add: enhance_def get_not_nullish Let_def)
qed

text \<open>
  Claim C4, as the code has it. \<^verbatim>\<open>getRiskLevel\<close> maps a probability to Critical from 0.7
  on, to High from 0.3 on, to Medium from 0.1 on and to Low below, the three bounds
  included in the higher tier; an absent probability (\<^verbatim>\<open>undefined\<close>, \<^verbatim>\<open>null\<close>, \<open>NaN\<close>)
  gives Low and no error. The level that the map's click handler stores for the
  probabilistic network is derived by another rule, after defaulting a falsy probability
  to 0: High above 0.7, Medium above 0.3, Low otherwise, the bounds excluded and no
  Critical tier.
\<close>

theorem C4_risk_level_thresholds:
  "getRiskLevel ops (JNum (Fin q)) =
     (if 7 / 10 \<le> q then ''Critical'' else if 3 / 10 \<le> q then ''High''
      else if 1 / 10 \<le> q then ''Medium'' else ''Low'')
   \<and> getRiskLevel ops JUndefined = ''Low''
   \<and> getRiskLevel ops JNull = ''Low''
   \<and> getRiskLevel ops (JNum NaN) = ''Low''
   \<and> network_risk_level ops (JNum (Fin q)) =
       (if 7 / 10 < q then ''High'' else if 3 / 10 < q then ''Medium'' else ''Low'')
   \<and> network_risk_level ops JUndefined = ''Low''
   \<and> network_risk_level ops JNull = ''Low''
   \<and> (\<forall>closure prediction e. enhance ops closure prediction = Inr e \<longrightarrow>
         get_opt (get_opt e ''bayesian_network'') ''risk_level''
         = JStr (network_risk_level ops (get_opt prediction ''bayesian_probability'')))"
  using getRiskLevel_number [of ops q] getRiskLevel_absent [of ops]
    network_risk_level_number [of ops q] network_risk_level_absent [of ops]
    enhance_network_level [of ops]
  by blast

text \<open>The four probabilities of the specification, and the three bounds.\<close>

theorem C4_risk_level_witness:
  "getRiskLevel sample_ops (JNum (Fin (75 / 100))) = ''Critical''
   \<and> getRiskLevel sample_ops (JNum (Fin (5 / 10))) = ''High''
   \<and> getRiskLevel sample_ops (JNum (Fin (2 / 10))) = ''Medium''
   \<and> getRiskLevel sample_ops (JNum (Fin (5 / 100))) = ''Low''
   \<and> getRiskLevel sample_ops (JNum (Fin (7 / 10))) = ''Critical''
   \<and> getRiskLevel sample_ops (JNum (Fin (3 / 10))) = ''High''
   \<and> getRiskLevel sample_ops (JNum (Fin (1 / 10))) = ''Medium''
   \<and> network_risk_level sample_ops (JNum (Fin (7 / 10))) = ''Medium''
   \<and> map_sum id (\<lambda>e. get_opt (get_opt e ''bayesian_network'') ''risk_level'')
         (enhance sample_ops
            \<lparr>closure_wardName = JStr ''H/E'', closure_wardCode = JStr ''H/E'',
             closure_coordinates = None, closure_properties = JObj []\<rparr>
            (JObj [(''bayesian_probability'', JNum (Fin (5 / 10)))]))
       = Inr (JStr ''Medium'')"
proof -
  define c where "c = \<lparr>closure_wardName = JStr ''H/E'', closure_wardCode = JStr ''H/E'',
             closure_coordinates = None, closure_properties = JObj []\<rparr>"
  define raw where "raw = JObj [(''bayesian_probability'', JNum (Fin (5 / 10)))]"
  have "\<not> nullish raw" by (simp add: raw_def)
  from enhance_ok [OF this] obtain e where e: "enhance sample_ops c raw = Inr e" by blast
  with C4_risk_level_thresholds [of sample_ops "5 / 10"]
  have "get_opt (get_opt e ''bayesian_network'') ''risk_level''
        = JStr (network_risk_level sample_ops (get_opt raw ''bayesian_probability''))"
    by blast
  also have "get_opt raw ''bayesian_probability'' = JNum (Fin (5 / 10))"
    by (simp add: raw_def)
  also have "network_risk_level sample_ops (JNum (Fin (5 / 10))) = ''Medium''"
    using C4_risk_level_thresholds [of sample_ops "5 / 10"] by simp
  finally have last: "map_sum id (\<lambda>e. get_opt (get_opt e ''bayesian_network'') ''risk_level'')
      (enhance sample_ops c raw) = Inr (JStr ''Medium'')"
    using e by simp
  show ?thesis
    using last
      C4_risk_level_thresholds [of sample_ops "75 / 100"]
      C4_risk_level_thresholds [of sample_ops "5 / 10"]
      C4_risk_level_thresholds [of sample_ops "2 / 10"]
      C4_risk_level_thresholds [of sample_ops "5 / 100"]
      C4_risk_level_thresholds [of sample_ops "7 / 10"]
      C4_risk_level_thresholds [of sample_ops "3 / 10"]
      C4_risk_level_thresholds [of sample_ops "1 / 10"]
    unfolding c_def raw_def by simp
qed

text \<open>
  The claim as stated fails where the click handler derives the network's level: for
  the probability 0.75 it stores High, where \<^verbatim>\<open>getRiskLevel\<close> says Critical.
\<close>

theorem C4_handler_level_counterexample:
  "map_sum id (\<lambda>e. get_opt (get_opt e ''bayesian_network'') ''risk_level'')
     (enhance sample_ops
        \<lparr>closure_wardName = JStr ''H/E'', closure_wardCode = JStr ''H/E'',
         closure_coordinates = None, closure_properties = JObj []\<rparr>
        (JObj [(''bayesian_probability'', JNum (Fin (75 / 100)))]))
   = Inr (JStr ''High'')
   \<and> getRiskLevel sample_ops (JNum (Fin (75 / 100))) = ''Critical''"
  by (simp add: enhance_def get_def Let_def network_risk_level_def js_gt_def js_or_def
      getRiskLevel_def js_ge_def)

section \<open>Aggregate statistics\<close>

lemma stats_step_ok:
  assumes "\<not> nullish e"
  shows "\<exists>v'. stats_step ops e v = Inr v'
    \<and> lowRisk_var v' = lowRisk_var v + (if get_opt e ''riskLevel'' = JNum (Fin 0) then 1 else 0)
    \<and> mediumRisk_var v' = mediumRisk_var v + (if get_opt e ''riskLevel'' = JNum (Fin 1) then 1 else 0)
    \<and> highRisk_var v' = highRisk_var v + (if get_opt e ''riskLevel'' = JNum (Fin 2) then 1 else 0)
    \<and> floodExpected_var v' = floodExpected_var v + (if truthy (get_opt e ''willFlood'') then 1 else 0)
    \<and> avgBayesianProb_var v' = js_add ops (avgBayesianProb_var v) (summand e)"
  using assms by (simp add: stats_step_def get_not_nullish Let_def summand_def)

lemma stats_step_nullish:
  "nullish e \<Longrightarrow> \<exists>err. stats_step ops e v = Inl err"
  by (simp add: stats_step_def get_def)


lemma forEach_stats_step_nullish:
  assumes "\<exists>e\<in>set es. nullish e"
  shows "\<exists>err. forEach (stats_step ops) es v = Inl err"
  using assms
proof (induction es arbitrary: v)
  case Nil
  then show ?case by simp
next
  case (Cons e es)
  show ?case
  proof (cases "nullish e")
    case True
    from stats_step_nullish [OF this, of ops v] show ?thesis by auto
  next
    case False
    from stats_step_ok [OF this, of ops v] obtain v1 where "stats_step ops e v = Inr v1"
      by blast
    moreover from Cons.prems False have "\<exists>e\<in>set es. nullish e" by auto
    ultimately show ?thesis using Cons.IH [of v1] by simp
  qed
qed

text \<open>An entry that is \<^verbatim>\<open>null\<close> or \<^verbatim>\<open>undefined\<close> makes the statistics throw.\<close>

lemma calculateStats_nullish_entry:
  assumes "\<exists>e\<in>set (map snd ps). nullish e"
  shows "\<exists>err. calculateStats ops ps = Inl err"
proof -
  from forEach_stats_step_nullish [OF assms, of ops] obtain err where
    "forEach (stats_step ops) (map snd ps)
       \<lparr>lowRisk_var = 0, mediumRisk_var = 0, highRisk_var = 0,
        floodExpected_var = 0, avgBayesianProb_var = JNum (Fin 0)\<rparr> = Inl err"
    by blast
  then show ?thesis by (simp add: calculateStats_def Let_def)
qed







section \<open>Centroids and the click handler's use of them\<close>

lemma centroid_loop_numeric:
  assumes "\<forall>p\<in>set ring. 2 \<le> length p"
  shows "centroid_loop ring (Fin x, Fin y)
         = (Fin (x + sum_list (map (\<lambda>p. p ! 0) ring)), Fin (y + sum_list (map (\<lambda>p. p ! 1) ring)))"
  using assms
proof (induction ring arbitrary: x y)
  case Nil
  then show ?case by simp
next
  case (Cons p ring)
  then have "2 \<le> length p" by simp
  then have "coord p 0 = Fin (p ! 0)" "coord p 1 = Fin (p ! 1)"
    by (auto simp add: coord_def)
  with Cons show ?case by (simp add: add.assoc)
qed

lemma calculateCentroid_absent:
  "calculateCentroid None = None" "calculateCentroid (Some []) = None"
  by (simp_all add: calculateCentroid_def)

lemma calculateCentroid_empty_ring:
  "calculateCentroid (Some ([] # rest)) = Some \<lparr>longitude = NaN, latitude = NaN\<rparr>"
  by (simp add: calculateCentroid_def signed_inf_def)

lemma calculateCentroid_mean:
  assumes "ring \<noteq> []" and "\<forall>p\<in>set ring. 2 \<le> length p"
  shows "calculateCentroid (Some (ring # rest))
         = Some \<lparr>longitude = Fin (mean (map (\<lambda>p. p ! 0) ring)),
                 latitude = Fin (mean (map (\<lambda>p. p ! 1) ring))\<rparr>"
  using assms centroid_loop_numeric [OF assms(2), of 0 0]
  by (simp add: calculateCentroid_def mean_def)

lemma calculateCentroid_None_iff:
  "calculateCentroid cs = None \<longleftrightarrow> cs = None \<or> cs = Some []"
  by (auto simp: calculateCentroid_def split: option.splits list.splits prod.splits)

lemma click_start_throws_iff:
  assumes "\<not> nullish (properties f)"
  shows "isl (snd (click_start ops True f s)) \<longleftrightarrow> coordinates f = None \<or> coordinates f = Some []"
  using assms calculateCentroid_None_iff [of "coordinates f"]
  by (auto simp add: click_start_def get_not_nullish Let_def split: option.splits)

lemma click_start_no_callback:
  assumes "\<not> nullish (properties f)"
  shows "\<not> isl (snd (click_start ops False f s))"
  using assms
  by (simp add: click_start_def get_not_nullish Let_def)

text \<open>
  Claim C10, as the code has it. \<^verbatim>\<open>calculateCentroid\<close> returns \<^verbatim>\<open>null\<close> when the
  coordinates or their first ring are absent, \<open>NaN\<close> coordinates for an empty outer ring,
  and the componentwise arithmetic mean of the outer ring's vertices when the ring is
  not empty (each vertex holding its two numbers). The click handler reads
  \<^verbatim>\<open>.latitude\<close> and \<^verbatim>\<open>.longitude\<close> of the result with no null check, inside the test for
  the coordinates callback: for a feature with properties and with the callback
  installed it throws exactly when the coordinates or their first ring are absent; for an
  empty outer ring it does not throw and hands \<open>NaN\<close> coordinates on; without the
  callback it never throws.
\<close>

theorem C10_centroid_total_on_present_ring:
  "calculateCentroid None = None
   \<and> calculateCentroid (Some []) = None
   \<and> calculateCentroid (Some ([] # rest)) = Some \<lparr>longitude = NaN, latitude = NaN\<rparr>
   \<and> (ring \<noteq> [] \<and> (\<forall>p\<in>set ring. 2 \<le> length p) \<longrightarrow>
        calculateCentroid (Some (ring # rest))
        = Some \<lparr>longitude = Fin (mean (map (\<lambda>p. p ! 0) ring)),
                latitude = Fin (mean (map (\<lambda>p. p ! 1) ring))\<rparr>)
   \<and> (\<not> nullish (properties f) \<longrightarrow>
        (isl (snd (click_start ops True f s))
         \<longleftrightarrow> coordinates f = None \<or> coordinates f = Some []))
   \<and> (\<not> nullish (properties f) \<longrightarrow> \<not> isl (snd (click_start ops False f s)))"
  using calculateCentroid_absent calculateCentroid_empty_ring [of rest]
    calculateCentroid_mean [of ring rest] click_start_throws_iff [of f ops s]
    click_start_no_callback [of f ops s]
  by blast

text \<open>
  A ring of two vertices has their midpoint as its centroid, the click on its feature
  does not throw, and the click on a feature without coordinates does.
\<close>

theorem C10_centroid_witness:
  "calculateCentroid (Some [[[72, 18], [74, 20]]]) = Some \<lparr>longitude = Fin 73, latitude = Fin 19\<rparr>
   \<and> \<not> isl (snd (click_start sample_ops True
         \<lparr>properties = JObj [(''ward_name_full'', JStr ''A''), (''ward_code'', JStr ''A'')],
          coordinates = Some [[[72, 18], [74, 20]]]\<rparr> initial_state))
   \<and> isl (snd (click_start sample_ops True
         \<lparr>properties = JObj [(''ward_name_full'', JStr ''A''), (''ward_code'', JStr ''A'')],
          coordinates = None\<rparr> initial_state))"
proof -
  have m: "mean (map (\<lambda>p. p ! 0) [[72, 18], [74, 20]]) = (73 :: rat)"
    "mean (map (\<lambda>p. p ! 1) [[72, 18], [74, 20]]) = (19 :: rat)"
    by (simp_all add: mean_def)
  show ?thesis
    using m
      C10_centroid_total_on_present_ring
        [where ring = "[[72, 18], [74, 20]]" and rest = "[]" and ops = sample_ops
          and s = initial_state
          and f = "\<lparr>properties = JObj [(''ward_name_full'', JStr ''A''), (''ward_code'', JStr ''A'')],
                    coordinates = Some [[[72, 18], [74, 20]]]\<rparr>"]
      C10_centroid_total_on_present_ring
        [where ring = "[[72, 18], [74, 20]]" and rest = "[]" and ops = sample_ops
          and s = initial_state
          and f = "\<lparr>properties = JObj [(''ward_name_full'', JStr ''A''), (''ward_code'', JStr ''A'')],
                    coordinates = None\<rparr>"]
    by simp
qed

text \<open>
  The claim as stated fails on a feature whose outer ring is empty: the centroid is not
  \<^verbatim>\<open>null\<close>, the handler does not throw, and it hands \<open>NaN\<close> coordinates to the parent.
\<close>

theorem C10_empty_ring_counterexample:
  "\<not> isl (snd (click_start sample_ops True
       \<lparr>properties = JObj [(''ward_name_full'', JStr ''A''), (''ward_code'', JStr ''A'')],
        coordinates = Some [[]]\<rparr> initial_state))
   \<and> wardCoordinates (fst (click_start sample_ops True
       \<lparr>properties = JObj [(''ward_name_full'', JStr ''A''), (''ward_code'', JStr ''A'')],
        coordinates = Some [[]]\<rparr> initial_state))
     = JObj [(''latitude'', JNum NaN), (''longitude'', JNum NaN),
             (''wardName'', JStr ''A''), (''wardCode'', JStr ''A'')]"
  by (simp add: click_start_def get_def Let_def calculateCentroid_def signed_inf_def js_or_def)

section \<open>Validation before the network\<close>

lemma bad_series_iff: "bad_series d \<longleftrightarrow> \<not> (\<exists>xs. d = JArr xs \<and> length xs = 15)"
  by (cases d) (auto simp: bad_series_def)

lemma predictFloodRisk_catch_Error [simp]:
  "predictFloodRisk_catch ops (Error m) = Error (''Request failed: '' @ m)"
  by (simp add: predictFloodRisk_catch_def)

lemma predictFloodRiskWithWeather_catch_Error [simp]:
  "predictFloodRiskWithWeather_catch ops (Error m) = Error (''Request failed: '' @ m)"
  by (simp add: predictFloodRiskWithWeather_catch_def)

text \<open>
  Claim C6. For every input that is not an array of exactly 15 values,
  \<^verbatim>\<open>predictFloodRisk\<close> and \<^verbatim>\<open>predictFloodRiskSimple\<close>, and \<^verbatim>\<open>predictFloodRiskWithWeather\<close>
  when the rainfall data is given (truthy), hand no request to the HTTP client and fail
  with the validation error; the first and the third pass it through their \<^verbatim>\<open>catch\<close>
  block, which prefixes the message.
\<close>

theorem C6_validation_before_network:
  assumes "\<not> (\<exists>xs. d = JArr xs \<and> length xs = 15)"
  shows "predictFloodRisk ops server d
           = ([], Inl (Error (''Request failed: '' @ validation_message)))
    \<and> predictFloodRiskSimple server d = ([], Inl (Error validation_message))
    \<and> (truthy d \<longrightarrow>
         predictFloodRiskWithWeather ops server d lat lon useForecast
           = ([], Inl (Error (''Request failed: '' @ validation_message))))"
proof -
  from assms have "bad_series d" by (simp only: bad_series_iff not_False_eq_True)
  then show ?thesis
    by (simp add: predictFloodRisk_def predictFloodRiskSimple_def
        predictFloodRiskWithWeather_def)
qed

text \<open>A series of two values, against a server that would answer.\<close>

theorem C6_validation_witness:
  "predictFloodRisk sample_ops (\<lambda>r. Responded 200 JNull) (JArr [JNum (Fin 1), JNum (Fin 2)])
     = ([], Inl (Error ''Request failed: Rainfall data must be an array of exactly 15 values''))
   \<and> predictFloodRiskSimple (\<lambda>r. Responded 200 JNull) (JArr [JNum (Fin 1), JNum (Fin 2)])
     = ([], Inl (Error ''Rainfall data must be an array of exactly 15 values''))
   \<and> truthy (JArr [JNum (Fin 1), JNum (Fin 2)])
   \<and> predictFloodRiskWithWeather sample_ops (\<lambda>r. Responded 200 JNull)
        (JArr [JNum (Fin 1), JNum (Fin 2)]) JNull JNull (JBool True)
     = ([], Inl (Error ''Request failed: Rainfall data must be an array of exactly 15 values''))"
  using C6_validation_before_network
      [of "JArr [JNum (Fin 1), JNum (Fin 2)]" sample_ops "\<lambda>r. Responded 200 JNull"
        JNull JNull "JBool True"]
  by (simp add: validation_message_def)

text \<open>A series of exactly 15 values does reach the network, with one request.\<close>

lemma predictFloodRisk_valid_series:
  "length xs = 15 \<Longrightarrow>
   fst (predictFloodRisk ops server (JArr xs))
   = [\<lparr>http_method = ''POST'', url = ''/predict'',
       body = JObj [(''rainfall_values'', JArr xs)]\<rparr>]"
  by (simp add: predictFloodRisk_def bad_series_def Let_def)

section \<open>Which failures the API functions translate\<close>

lemma predictFloodRisk_catch_is_Error: "\<exists>m. predictFloodRisk_catch ops e = Error m"
  by (simp add: predictFloodRisk_catch_def split: option.splits prod.splits)

lemma predictFloodRisk_translates:
  "snd (predictFloodRisk ops server d) = Inl e \<Longrightarrow> \<exists>m. e = Error m"
  using predictFloodRisk_catch_is_Error [of ops]
  by (auto simp add: predictFloodRisk_def Let_def split: if_splits sum.splits)

lemma getWardFloodPrediction_raw:
  assumes "axios_result (server (getWardFloodPrediction_request ops w)) = Inl e"
    and "\<not> status_is e 503" and "\<not> status_is e 404" and "\<not> status_is e 500"
  shows "snd (getWardFloodPrediction ops server w) = Inl e"
  using assms by (simp add: getWardFloodPrediction_def getWardFloodPrediction_settle_def)

lemma getWardFloodPrediction_translated:
  assumes "axios_result (server (getWardFloodPrediction_request ops w)) = Inl e"
    and "status_is e 503 \<or> status_is e 404 \<or> status_is e 500"
  shows "\<exists>m. snd (getWardFloodPrediction ops server w) = Inl (Error m)"
  using assms by (auto simp add: getWardFloodPrediction_def getWardFloodPrediction_settle_def)

lemma getAllWardsFloodPrediction_raw:
  assumes "axios_result (server getAllWardsFloodPrediction_request) = Inl e"
    and "\<not> status_is e 503"
  shows "snd (getAllWardsFloodPrediction server) = Inl e"
  using assms by (simp add: getAllWardsFloodPrediction_def getAllWardsFloodPrediction_settle_def)

lemma getAllWardsFloodPrediction_translated:
  assumes "axios_result (server getAllWardsFloodPrediction_request) = Inl e"
    and "status_is e 503"
  shows "\<exists>m. snd (getAllWardsFloodPrediction server) = Inl (Error m)"
  using assms by (auto simp add: getAllWardsFloodPrediction_def getAllWardsFloodPrediction_settle_def)

text \<open>
  Claim C5, as the code has it. \<^verbatim>\<open>predictFloodRisk\<close> translates every failure: whatever
  it throws is a new error with one of its own messages, never the HTTP library's
  rejection. \<^verbatim>\<open>getWardFloodPrediction\<close> translates the rejections with status 503, 404
  and 500 and rethrows every other rejection (another status, no answer, a request that
  could not be sent) as it caught it; \<^verbatim>\<open>getAllWardsFloodPrediction\<close> translates status
  503 alone and rethrows the rest.
\<close>

theorem C5_error_translation:
  "(\<forall>e. snd (predictFloodRisk ops server d) = Inl e \<longrightarrow> (\<exists>m. e = Error m))
   \<and> (\<forall>e. axios_result (server (getWardFloodPrediction_request ops w)) = Inl e \<longrightarrow>
        (if status_is e 503 \<or> status_is e 404 \<or> status_is e 500
         then \<exists>m. snd (getWardFloodPrediction ops server w) = Inl (Error m)
         else snd (getWardFloodPrediction ops server w) = Inl e))
   \<and> (\<forall>e. axios_result (server getAllWardsFloodPrediction_request) = Inl e \<longrightarrow>
        (if status_is e 503
         then \<exists>m. snd (getAllWardsFloodPrediction server) = Inl (Error m)
         else snd (getAllWardsFloodPrediction server) = Inl e))"
proof (intro conjI allI impI)
  fix e assume "snd (predictFloodRisk ops server d) = Inl e"
  then show "\<exists>m. e = Error m" by (rule predictFloodRisk_translates)
next
  fix e assume "axios_result (server (getWardFloodPrediction_request ops w)) = Inl e"
  then show "if status_is e 503 \<or> status_is e 404 \<or> status_is e 500
         then \<exists>m. snd (getWardFloodPrediction ops server w) = Inl (Error m)
         else snd (getWardFloodPrediction ops server w) = Inl e"
    using getWardFloodPrediction_raw [of server ops w e]
      getWardFloodPrediction_translated [of server ops w e]
    by (simp split: if_splits)
next
  fix e assume "axios_result (server getAllWardsFloodPrediction_request) = Inl e"
  then show "if status_is e 503
         then \<exists>m. snd (getAllWardsFloodPrediction server) = Inl (Error m)
         else snd (getAllWardsFloodPrediction server) = Inl e"
    using getAllWardsFloodPrediction_raw [of server e]
      getAllWardsFloodPrediction_translated [of server e]
    by (simp split: if_splits)
qed

text \<open>
  A server that answers 404: the rejection carries that status, and the ward function
  throws a translated error. A server that answers 503 to the bulk request: translated as
  well. No answer to a valid series: \<^verbatim>\<open>predictFloodRisk\<close> throws its own error.
\<close>

theorem C5_error_translation_witness:
  "axios_result ((\<lambda>r. Responded 404 JNull) (getWardFloodPrediction_request sample_ops (JStr ''A'')))
     = Inl (AxiosError (Some (404, JNull)) True ''Request failed with status code 404'')
   \<and> status_is (AxiosError (Some (404, JNull)) True ''Request failed with status code 404'') 404
   \<and> (\<exists>m. snd (getWardFloodPrediction sample_ops (\<lambda>r. Responded 404 JNull) (JStr ''A''))
          = Inl (Error m))
   \<and> axios_result ((\<lambda>r. Responded 503 JNull) getAllWardsFloodPrediction_request)
     = Inl (AxiosError (Some (503, JNull)) True ''Request failed with status code 503'')
   \<and> (\<exists>m. snd (getAllWardsFloodPrediction (\<lambda>r. Responded 503 JNull)) = Inl (Error m))
   \<and> isl (snd (predictFloodRisk sample_ops (\<lambda>r. NoResponse ''Network Error'')
                 (JArr (replicate 15 (JNum (Fin 0))))))
   \<and> (\<exists>m. snd (predictFloodRisk sample_ops (\<lambda>r. NoResponse ''Network Error'')
                 (JArr (replicate 15 (JNum (Fin 0))))) = Inl (Error m))"
proof -
  have a: "axios_result ((\<lambda>r. Responded 404 JNull)
             (getWardFloodPrediction_request sample_ops (JStr ''A'')))
     = Inl (AxiosError (Some (404, JNull)) True ''Request failed with status code 404'')"
    by code_simp
  have b: "status_is (AxiosError (Some (404, JNull)) True
             ''Request failed with status code 404'') 404"
    by (simp add: status_is_def)
  have c: "axios_result ((\<lambda>r. Responded 503 JNull) getAllWardsFloodPrediction_request)
     = Inl (AxiosError (Some (503, JNull)) True ''Request failed with status code 503'')"
    by code_simp
  have d: "status_is (AxiosError (Some (503, JNull)) True
             ''Request failed with status code 503'') 503"
    by (simp add: status_is_def)
  have e: "isl (snd (predictFloodRisk sample_ops (\<lambda>r. NoResponse ''Network Error'')
                 (JArr (replicate 15 (JNum (Fin 0))))))"
    by code_simp
  then obtain x where x: "snd (predictFloodRisk sample_ops (\<lambda>r. NoResponse ''Network Error'')
                 (JArr (replicate 15 (JNum (Fin 0))))) = Inl x"
    by (auto simp add: isl_def)
  from C5_error_translation [of sample_ops "\<lambda>r. Responded 404 JNull" JNull "JStr ''A''"] a b
  have w1: "\<exists>m. snd (getWardFloodPrediction sample_ops (\<lambda>r. Responded 404 JNull) (JStr ''A''))
          = Inl (Error m)"
    by auto
  from C5_error_translation [of sample_ops "\<lambda>r. Responded 503 JNull" JNull "JStr ''A''"] c d
  have w2: "\<exists>m. snd (getAllWardsFloodPrediction (\<lambda>r. Responded 503 JNull)) = Inl (Error m)"
    by auto
  from C5_error_translation [of sample_ops "\<lambda>r. NoResponse ''Network Error''"
      "JArr (replicate 15 (JNum (Fin 0)))" "JStr ''A''"] x
  have w3: "\<exists>m. snd (predictFloodRisk sample_ops (\<lambda>r. NoResponse ''Network Error'')
                 (JArr (replicate 15 (JNum (Fin 0))))) = Inl (Error m)"
    by auto
  from a b c e w1 w2 w3 show ?thesis by blast
qed

text \<open>
  The claim as stated fails when no answer arrives: the caller of
  \<^verbatim>\<open>getWardFloodPrediction\<close> receives the HTTP library's own rejection.
\<close>

theorem C5_raw_rejection_counterexample:
  "getWardFloodPrediction sample_ops (\<lambda>r. NoResponse ''timeout of 10000ms exceeded'') (JStr ''H/E'')
   = ([\<lparr>http_method = ''POST'', url = ''/predict/ward/H%2FE'', body = JUndefined\<rparr>],
      Inl (AxiosError None True ''timeout of 10000ms exceeded''))"
  by code_simp

section \<open>The domain of the prediction map\<close>

lemma keys_set_prop:
  "object_keys (set_prop obj k v)
   = (if k \<in> set (object_keys obj) then object_keys obj else object_keys obj @ [k])"
  unfolding object_keys_def by (induction obj) force+

lemma set_prop_keys: "set (object_keys (set_prop obj k v)) = insert k (set (object_keys obj))"
  unfolding keys_set_prop by auto

lemma lookup_set_prop_same: "lookup (set_prop obj k v) k = v"
  by (induction obj) (auto simp: lookup_def)

lemma lookup_set_prop_other: "k' \<noteq> k \<Longrightarrow> lookup (set_prop obj k v) k' = lookup obj k'"
  by (induction obj) (auto simp: lookup_def)

lemma set_prop_distinct:
  "distinct (object_keys obj) \<Longrightarrow> distinct (object_keys (set_prop obj k v))"
  unfolding keys_set_prop by auto

lemma click_start_predictions: "predictions (fst (click_start ops cb f s)) = predictions s"
  by (simp add: click_start_def Let_def split: sum.splits option.splits)

lemma click_finish_keys:
  "set (object_keys (predictions s))
   \<subseteq> set (object_keys (predictions (click_finish ops closure out s)))"
  by (auto simp add: click_finish_def set_prop_keys split: sum.splits)

lemma onPredictionUpdate_keys:
  "set (object_keys (predictions (onPredictionUpdate ops w p s)))
   = insert (to_str ops w) (set (object_keys (predictions s)))"
  by (simp add: onPredictionUpdate_def set_prop_keys)

lemma loadWardPrediction_finish_keys:
  "set (object_keys (predictions (snd ps)))
   \<subseteq> set (object_keys (predictions (snd (loadWardPrediction_finish ops now w o1 o2 wfirst ps))))"
  by (auto simp add: loadWardPrediction_finish_def onPredictionUpdate_keys split: sum.splits prod.splits)

lemma loadAll_replaces:
  "(\<exists>fp. \<forall>s. predictions (loadAllPredictions_finish ops now out s) = fp)
   \<or> (\<forall>s. predictions (loadAllPredictions_finish ops now out s) = predictions s)"
  by (auto simp add: loadAllPredictions_finish_def split: sum.splits)

lemma loadAll_start_predictions: "predictions (fst (loadAllPredictions_start s)) = predictions s"
  by (simp add: loadAllPredictions_start_def)

text \<open>
  Claim C7, as the code has it. The prediction map is empty at startup. The start of a
  click leaves it alone; the commit of the click handler and the panel's
  \<^verbatim>\<open>onPredictionUpdate\<close> merge one entry into it and keep every key it had. The bulk
  load (\<^verbatim>\<open>loadAllPredictions\<close>, at startup and on Refresh) either fails and leaves the
  map alone or replaces the whole map by what it built from the response, whatever the
  map held. The \<^verbatim>\<open>Clear Results\<close> button of the ward demo empties that view's own map.
\<close>

theorem C7_prediction_map_domain:
  "predictions initial_state = []
   \<and> predictions (fst (click_start ops cb f s)) = predictions s
   \<and> set (object_keys (predictions s))
       \<subseteq> set (object_keys (predictions (click_finish ops closure out s)))
   \<and> set (object_keys (predictions (onPredictionUpdate ops w p s)))
       = insert (to_str ops w) (set (object_keys (predictions s)))
   \<and> set (object_keys (predictions (snd ps)))
       \<subseteq> set (object_keys
             (predictions (snd (loadWardPrediction_finish ops now w o1 o2 wfirst ps))))
   \<and> ((\<exists>fp. \<forall>s'. predictions (loadAllPredictions_finish ops now out' s') = fp)
        \<or> (\<forall>s'. predictions (loadAllPredictions_finish ops now out' s') = predictions s'))
   \<and> predictions (fst (loadAllPredictions_start s)) = predictions s
   \<and> clearResults wardPredictions = []"
  using click_start_predictions [of ops cb f s] click_finish_keys [of s ops closure out]
    onPredictionUpdate_keys [of ops w p s]
    loadWardPrediction_finish_keys [of ps ops now w o1 o2 wfirst]
    loadAll_replaces [of ops now out'] loadAll_start_predictions [of s]
  by (simp add: initial_state_def clearResults_def)

text \<open>
  A map that holds ward A still holds it after the click on ward B has committed.
\<close>

theorem C7_prediction_map_witness:
  "''A'' \<in> set (object_keys (predictions
      (click_finish sample_ops
         \<lparr>closure_wardName = JStr ''B'', closure_wardCode = JStr ''B'',
          closure_coordinates = None, closure_properties = JObj []\<rparr>
         (Responded 200 (JObj []))
         (initial_state\<lparr>predictions := [(''A'', JObj [])]\<rparr>))))"
proof -
  have "''A'' \<in> set (object_keys (predictions (initial_state\<lparr>predictions := [(''A'', JObj [])]\<rparr>)))"
    by (simp add: object_keys_def)
  with C7_prediction_map_domain
    [where s = "initial_state\<lparr>predictions := [(''A'', JObj [])]\<rparr>" and ops = sample_ops
      and out = "Responded 200 (JObj [])"
      and closure = "\<lparr>closure_wardName = JStr ''B'', closure_wardCode = JStr ''B'',
          closure_coordinates = None, closure_properties = JObj []\<rparr>"]
  show ?thesis by blast
qed

text \<open>
  The claim as stated fails on the bulk load: after a click has committed ward A, a
  reload whose response holds ward B alone leaves a map without ward A.
\<close>

theorem C7_bulk_reload_counterexample:
  "(case click_start sample_ops True
          \<lparr>properties = JObj [(''ward_name_full'', JStr ''A''), (''ward_code'', JStr ''A'')],
           coordinates = Some [[[72, 18], [74, 20]]]\<rparr> initial_state of
      (s1, Inr (closure, req)) \<Rightarrow>
        let s2 = click_finish sample_ops closure
                   (Responded 200 (JObj [(''bayesian_probability'', JNum (Fin (1 / 2)))])) s1;
            s3 = fst (loadAllPredictions_start s2);
            s4 = loadAllPredictions_finish sample_ops ''2025-07-01T00:00:00.000Z''
                   (Responded 200 (JObj [(''predictions'', JArr [JObj [(''ward_code'', JStr ''B'')]])])) s3
        in object_keys (predictions s2) = [''A''] \<and> object_keys (predictions s4) = [''B'']
    | (s1, Inl e) \<Rightarrow> False)"
  by code_simp

section \<open>A late response after a newer selection\<close>

lemma click_start_Inr:
  assumes "click_start ops cb f s = (s', Inr (c, r))"
  shows "selectedWard s' = closure_wardName c" and "loading s' = True"
    and "predictions s' = predictions s"
    and "r = predictSingleWard_request ops (closure_wardCode c)"
    and "closure_wardName c = js_or (get_opt (properties f) ''ward_name_full'') (JStr ''Unknown Ward'')"
    and "closure_wardCode c = js_or (get_opt (properties f) ''ward_code'') (JStr ''N/A'')"
    and "closure_properties c = properties f"
  using assms
  by (auto simp add: click_start_def get_def Let_def split: if_splits option.splits)

lemma click_finish_success:
  assumes "200 \<le> st" and "st < 300" and "enhance ops c raw = Inr e"
  shows "click_finish ops c (Responded st raw) s
         = s\<lparr>predictions := set_prop (predictions s) (to_str ops (closure_wardName c)) e,
             loading := False\<rparr>"
  using assms by (simp add: click_finish_def axios_result_def)

lemma click_start_split:
  assumes "\<not> isl (snd (click_start ops cb f s))"
  shows "click_start ops cb f s
         = (fst (click_start ops cb f s),
            Inr (fst (projr (snd (click_start ops cb f s))),
                 snd (projr (snd (click_start ops cb f s)))))"
  using assms by (cases "click_start ops cb f s"; cases "snd (click_start ops cb f s)") auto

lemma late_click_commits:
  assumes a: "click_start ops cb fA s = (s1, Inr (cA, rA))"
    and b: "click_start ops cb fB s1 = (s2, Inr (cB, rB))"
    and st: "200 \<le> st" "st < 300"
    and raw: "\<not> nullish raw"
  shows "\<exists>e. enhance ops cA raw = Inr e
     \<and> lookup (predictions (click_finish ops cA (Responded st raw) s2))
          (to_str ops (closure_wardName cA)) = e
     \<and> (\<forall>k. k \<noteq> to_str ops (closure_wardName cA) \<longrightarrow>
          lookup (predictions (click_finish ops cA (Responded st raw) s2)) k
          = lookup (predictions s) k)
     \<and> selectedWard (click_finish ops cA (Responded st raw) s2) = closure_wardName cB
     \<and> loading (click_finish ops cA (Responded st raw) s2) = False"
proof -
  from enhance_ok [OF raw] obtain e where e: "enhance ops cA raw = Inr e" by blast
  have p: "predictions s2 = predictions s"
    using click_start_Inr(3) [OF a] click_start_Inr(3) [OF b] by simp
  have sel: "selectedWard s2 = closure_wardName cB"
    using click_start_Inr(1) [OF b] .
  show ?thesis
    using e p sel
    by (simp add: click_finish_success [OF st e] lookup_set_prop_same lookup_set_prop_other)
qed

lemma late_panel_commits:
  assumes "200 \<le> st1" "st1 < 300" "200 \<le> st2" "st2 < 300"
  shows "\<exists>fp. formatFloodPrediction now d1 = Inr fp
     \<and> snd (loadWardPrediction_finish ops now w (Responded st1 d1) (Responded st2 d2) wfirst (ps, s'))
       = s'\<lparr>predictions := set_prop (predictions s') (to_str ops w) fp\<rparr>"
proof -
  from formatFloodPrediction_total obtain fp where "formatFloodPrediction now d1 = Inr fp"
    by blast
  then show ?thesis using assms
    by (simp add: loadWardPrediction_finish_def getWardFloodPrediction_settle_def
        getWardCurrentWeather_settle_def axios_result_def promise_all2_def onPredictionUpdate_def)
qed

text \<open>
  Claim C1, as the code has it. There is no request identifier and no staleness check.
  When ward A is clicked, then ward B, and the response to A's request arrives
  afterwards with a success status and a body that is not \<^verbatim>\<open>null\<close>, the handler stores
  A's enhanced prediction under A's name and changes no other entry, the selection stays
  B, and the loading flag is lowered although B's request is still pending. The
  prediction panel does the same: when its two requests for a ward succeed, it merges
  that ward's record into the map, whatever is selected by then.
\<close>

theorem C1_late_response_is_committed:
  assumes "click_start ops cb fA s = (s1, Inr (cA, rA))"
    and "click_start ops cb fB s1 = (s2, Inr (cB, rB))"
    and "200 \<le> st" and "st < 300"
    and "\<not> nullish raw"
  shows "(\<exists>e. enhance ops cA raw = Inr e
       \<and> lookup (predictions (click_finish ops cA (Responded st raw) s2))
            (to_str ops (closure_wardName cA)) = e
       \<and> (\<forall>k. k \<noteq> to_str ops (closure_wardName cA) \<longrightarrow>
            lookup (predictions (click_finish ops cA (Responded st raw) s2)) k
            = lookup (predictions s) k)
       \<and> selectedWard (click_finish ops cA (Responded st raw) s2) = closure_wardName cB
       \<and> loading (click_finish ops cA (Responded st raw) s2) = False)
     \<and> (\<forall>now w d2 st2 wfirst ps. 200 \<le> st2 \<and> st2 < 300 \<longrightarrow>
          (\<exists>fp. formatFloodPrediction now raw = Inr fp
             \<and> snd (loadWardPrediction_finish ops now w (Responded st raw) (Responded st2 d2)
                      wfirst (ps, s2))
               = s2\<lparr>predictions := set_prop (predictions s2) (to_str ops w) fp\<rparr>))"
  using late_click_commits [OF assms] late_panel_commits [OF assms(3,4)]
  by blast

text \<open>
  A click on ward A, a click on ward B, then the answer for A: both clicks start, the
  map holds A, the selection is B and the loading flag is down.
\<close>

theorem C1_late_response_witness:
  "(let fA = \<lparr>properties = JObj [(''ward_name_full'', JStr ''A''), (''ward_code'', JStr ''A'')],
              coordinates = Some [[[72, 18], [74, 20]]]\<rparr>;
        fB = \<lparr>properties = JObj [(''ward_name_full'', JStr ''B''), (''ward_code'', JStr ''B'')],
              coordinates = Some [[[73, 19], [75, 21]]]\<rparr>;
        r1 = click_start sample_ops True fA initial_state;
        r2 = click_start sample_ops True fB (fst r1);
        s3 = click_finish sample_ops (fst (projr (snd r1)))
               (Responded 200 (JObj [(''bayesian_probability'', JNum (Fin (1 / 2)))])) (fst r2)
    in \<not> isl (snd r1) \<and> \<not> isl (snd r2)
       \<and> get_opt (lookup (predictions s3) ''A'') ''flood_risk_probability'' = JNum (Fin (1 / 2))
       \<and> selectedWard s3 = JStr ''B'' \<and> loading s3 = False
       \<and> object_keys (predictions (snd (loadWardPrediction_finish sample_ops
              ''2025-07-01T00:00:00.000Z'' (JStr ''A'')
              (Responded 200 (JObj [(''bayesian_probability'', JNum (Fin (1 / 2)))]))
              (Responded 200 JNull) False
              (\<lparr>panel_prediction = JNull, panel_weather = JNull, panel_loading = True,
                panel_error = JNull\<rparr>, fst r2)))) = [''A''])"
proof -
  define fA where "fA = \<lparr>properties = JObj [(''ward_name_full'', JStr ''A''), (''ward_code'', JStr ''A'')],
              coordinates = Some [[[72, 18], [74, 20]]]\<rparr>"
  define fB where "fB = \<lparr>properties = JObj [(''ward_name_full'', JStr ''B''), (''ward_code'', JStr ''B'')],
              coordinates = Some [[[73, 19], [75, 21]]]\<rparr>"
  define raw where "raw = JObj [(''bayesian_probability'', JNum (Fin (1 / 2)))]"
  define r1 where "r1 = click_start sample_ops True fA initial_state"
  define r2 where "r2 = click_start sample_ops True fB (fst r1)"
  define s3 where "s3 = click_finish sample_ops (fst (projr (snd r1))) (Responded 200 raw) (fst r2)"
  have n1: "\<not> isl (snd r1)" unfolding r1_def fA_def by code_simp
  have n2: "\<not> isl (snd r2)" unfolding r2_def r1_def fA_def fB_def by code_simp
  have a: "click_start sample_ops True fA initial_state
           = (fst r1, Inr (fst (projr (snd r1)), snd (projr (snd r1))))"
    using click_start_split n1 unfolding r1_def by blast
  have b: "click_start sample_ops True fB (fst r1)
           = (fst r2, Inr (fst (projr (snd r2)), snd (projr (snd r2))))"
    using click_start_split n2 unfolding r2_def by blast
  have raw: "\<not> nullish raw" by (simp add: raw_def)
  have nA: "closure_wardName (fst (projr (snd r1))) = JStr ''A''"
    using click_start_Inr(5) [OF a] by (simp add: fA_def js_or_def)
  have nB: "closure_wardName (fst (projr (snd r2))) = JStr ''B''"
    using click_start_Inr(5) [OF b] by (simp add: fB_def js_or_def)
  from C1_late_response_is_committed [OF a b _ _ raw, of 200]
  obtain e where e: "enhance sample_ops (fst (projr (snd r1))) raw = Inr e"
    and l: "lookup (predictions s3) (to_str sample_ops (closure_wardName (fst (projr (snd r1))))) = e"
    and sel: "selectedWard s3 = closure_wardName (fst (projr (snd r2)))"
    and ld: "loading s3 = False"
    unfolding s3_def by auto
  from e have fp: "get_opt e ''flood_risk_probability'' = JNum (Fin (1 / 2))"
    by (auto simp add: enhance_def raw_def get_def Let_def)
  define p0 where "p0 = \<lparr>panel_prediction = JNull, panel_weather = JNull, panel_loading = True,
                panel_error = JNull\<rparr>"
  have st2: "(200::nat) \<le> 200 \<and> (200::nat) < 300" by simp
  from C1_late_response_is_committed [OF a b _ _ raw, of 200] st2
  obtain fp' where "snd (loadWardPrediction_finish sample_ops ''2025-07-01T00:00:00.000Z''
        (JStr ''A'') (Responded 200 raw) (Responded 200 JNull) False (p0, fst r2))
      = (fst r2)\<lparr>predictions := set_prop (predictions (fst r2)) (to_str sample_ops (JStr ''A'')) fp'\<rparr>"
    by (metis le_refl)
  moreover have "predictions (fst r2) = []"
    using click_start_Inr(3) [OF a] click_start_Inr(3) [OF b] by (simp add: initial_state_def)
  ultimately have panel: "object_keys (predictions (snd (loadWardPrediction_finish sample_ops
        ''2025-07-01T00:00:00.000Z'' (JStr ''A'') (Responded 200 raw) (Responded 200 JNull) False
        (p0, fst r2)))) = [''A'']"
    by (simp add: object_keys_def)
  from fp panel l sel ld nA nB n1 n2 show ?thesis
    unfolding Let_def s3_def r2_def r1_def raw_def fA_def fB_def p0_def by simp
qed

text \<open>
  The claim as stated fails on that trace: the map was empty before A was selected and
  holds an entry for A after A's late answer, and the loading flag, raised by the click on
  B, is lowered by A's answer.
\<close>

theorem C1_stale_commit_counterexample:
  "(case click_start sample_ops True
          \<lparr>properties = JObj [(''ward_name_full'', JStr ''A''), (''ward_code'', JStr ''A'')],
           coordinates = Some [[[72, 18], [74, 20]]]\<rparr> initial_state of
      (s1, Inr (cA, rA)) \<Rightarrow>
        (case click_start sample_ops True
                \<lparr>properties = JObj [(''ward_name_full'', JStr ''B''), (''ward_code'', JStr ''B'')],
                 coordinates = Some [[[73, 19], [75, 21]]]\<rparr> s1 of
           (s2, Inr (cB, rB)) \<Rightarrow>
             let s3 = click_finish sample_ops cA
                        (Responded 200 (JObj [(''bayesian_probability'', JNum (Fin (1 / 2)))])) s2
             in lookup (predictions initial_state) ''A'' = JUndefined
                \<and> lookup (predictions s3) ''A'' \<noteq> JUndefined
                \<and> object_keys (predictions s3) = [''A'']
                \<and> selectedWard s3 = JStr ''B''
                \<and> loading s2 = True \<and> loading s3 = False
         | (s2, Inl e) \<Rightarrow> False)
    | (s1, Inl e) \<Rightarrow> False)"
  by code_simp

section \<open>One selection end to end\<close>








end
